theory Spec2Isabelle
  imports Main "HOL-Library.Word"
begin

section \<open>Values of the JavaScript runtime\<close>

text \<open>
  A \<open>Uint8Array\<close> is a list of bytes. A thrown \<open>Error\<close> is its message, the only
  part of it the handlers read (\<open>e.message\<close>). An awaited promise is its settled outcome:
  \<open>Inl e\<close> when it rejects with \<open>e\<close>, \<open>Inr v\<close> when it resolves to \<open>v\<close>.
  A \<open>URL\<close> object is its href.
\<close>

type_synonym bytes = "8 word list"

datatype js_error = Error (message: string)

datatype URL = URL (href: string)

text \<open>
  \<open>String.prototype.split\<close> with a one-character separator: the pieces between the
  occurrences of the separator, the empty ones included; a string without the separator is
  its own single piece.
\<close>

fun split_str :: "string \<Rightarrow> char \<Rightarrow> string list" where
  "split_str [] sep = [[]]"
| "split_str (c # cs) sep =
     (if c = sep then [] # split_str cs sep
      else (case split_str cs sep of
              [] \<Rightarrow> [[c]]
            | p # ps \<Rightarrow> (c # p) # ps))"

text \<open>\<open>path[ i ]\<close>: reading an array beyond its length gives \<open>undefined\<close>, here \<open>None\<close>.\<close>

definition path_at :: "string list \<Rightarrow> nat \<Rightarrow> string option" where
  "path_at path i = (if i < length path then Some (path ! i) else None)"

text \<open>
  \<open>String.prototype.indexOf\<close> for one character (\<open>-1\<close> when it does not occur) and
  \<open>String.prototype.substr\<close> with the start index only (a negative start counts from the
  end).
\<close>

fun indexOf :: "string \<Rightarrow> char \<Rightarrow> int" where
  "indexOf [] c = -1"
| "indexOf (x # xs) c =
     (if x = c then 0
      else (let i = indexOf xs c in if i < 0 then -1 else i + 1))"

definition substr :: "string \<Rightarrow> int \<Rightarrow> string" where
  "substr s start =
     (if start < 0 then drop (nat (max 0 (int (length s) + start))) s
      else drop (nat start) s)"

subsection \<open>Headers\<close>

text \<open>
  A \<open>Headers\<close> object is the list of its (name, value) entries in insertion order; every
  name the sources use is written in lower case already. \<open>set\<close> replaces the entries of
  the name, \<open>append\<close> adds one, \<open>get\<close> returns \<open>null\<close> (\<open>None\<close>) for a name without
  entry and the values joined by \<open>", "\<close> otherwise.
\<close>

type_synonym Headers = "(string \<times> string) list"

definition Headers_new :: Headers where
  "Headers_new = []"

definition Headers_set :: "Headers \<Rightarrow> string \<Rightarrow> string \<Rightarrow> Headers" where
  "Headers_set h name v = filter (\<lambda>e. fst e \<noteq> name) h @ [(name, v)]"

definition Headers_append :: "Headers \<Rightarrow> string \<Rightarrow> string \<Rightarrow> Headers" where
  "Headers_append h name v = h @ [(name, v)]"

fun join_with :: "string \<Rightarrow> string list \<Rightarrow> string" where
  "join_with sep [] = []"
| "join_with sep [x] = x"
| "join_with sep (x # y # ys) = x @ sep @ join_with sep (y # ys)"

definition Headers_values :: "Headers \<Rightarrow> string \<Rightarrow> string list" where
  "Headers_values h name = map snd (filter (\<lambda>e. fst e = name) h)"

definition Headers_get :: "Headers \<Rightarrow> string \<Rightarrow> string option" where
  "Headers_get h name =
     (case Headers_values h name of
        [] \<Rightarrow> None
      | vs \<Rightarrow> Some (join_with '', '' vs))"

subsection \<open>JSON.stringify\<close>

text \<open>
  The values the handlers serialise are strings, arrays and objects with string members.
  \<open>JSON.stringify\<close> writes an object's members in property order, without white space,
  and quotes a string with the escapes of the ECMAScript \<open>QuoteJSONString\<close>: the double
  quote, the backslash, and the control characters below \<open>0x20\<close>.
\<close>

datatype json = JString string | JArray "json list" | JObject "(string \<times> json) list"

definition hex_digit :: "nat \<Rightarrow> char" where
  "hex_digit n = (''0123456789abcdef'') ! (n mod 16)"

definition JSON_escape :: "char \<Rightarrow> string" where
  "JSON_escape c =
     (if c = CHR 0x22 then [CHR 0x5C, CHR 0x22]
      else if c = CHR 0x5C then [CHR 0x5C, CHR 0x5C]
      else if c = CHR 0x08 then [CHR 0x5C, CHR ''b'']
      else if c = CHR 0x09 then [CHR 0x5C, CHR ''t'']
      else if c = CHR 0x0A then [CHR 0x5C, CHR ''n'']
      else if c = CHR 0x0C then [CHR 0x5C, CHR ''f'']
      else if c = CHR 0x0D then [CHR 0x5C, CHR ''r'']
      else if of_char c < (0x20 :: nat)
        then [CHR 0x5C, CHR ''u'', CHR ''0'', CHR ''0'',
              hex_digit (of_char c div 16), hex_digit (of_char c)]
      else [c])"

definition JSON_quote :: "string \<Rightarrow> string" where
  "JSON_quote s = [CHR 0x22] @ concat (map JSON_escape s) @ [CHR 0x22]"

fun JSON_stringify :: "json \<Rightarrow> string" where
  "JSON_stringify (JString s) = JSON_quote s"
| "JSON_stringify (JArray xs) = ''['' @ join_with '','' (map JSON_stringify xs) @ '']''"
| "JSON_stringify (JObject kvs) =
     ''{'' @ join_with '',''
              (map (\<lambda>kv. JSON_quote (fst kv) @ '':'' @ JSON_stringify (snd kv)) kvs) @ ''}''"

definition json_keys :: "json \<Rightarrow> string list" where
  "json_keys j = (case j of JObject kvs \<Rightarrow> map fst kvs | _ \<Rightarrow> [])"

section \<open>The request handler\<close>

text \<open>The class \<open>RequestHandler\<close> of \<open>requestHandler.ts\<close>.\<close>

subsection \<open>Data and providers\<close>

text \<open>
  \<open>UserStreamData\<close> and \<open>Segment\<close> with the members their interfaces declare, and the JSON
  objects \<open>JSON.stringify\<close> sees: one member per declared member, in declaration order.
\<close>

record UserStreamData =
  admin :: string
  download :: string
  hub :: string

record Segment =
  segmentID :: string
  streamPublicID :: string
  segmentURL :: string

definition UserStreamData_json :: "UserStreamData \<Rightarrow> json" where
  "UserStreamData_json d =
     JObject [(''admin'', JString (admin d)),
              (''download'', JString (download d)),
              (''hub'', JString (hub d))]"

definition Segment_json :: "Segment \<Rightarrow> json" where
  "Segment_json s =
     JObject [(''segmentID'', JString (segmentID s)),
              (''streamPublicID'', JString (streamPublicID s)),
              (''segmentURL'', JString (segmentURL s))]"

text \<open>
  A \<open>ServerRequest\<close>: the members the sources read. \<open>contentLength\<close> is a number or
  \<open>null\<close>; \<open>req_body\<close> is the outcome of reading the body to its end
  (\<open>Deno.readAll( req.body )\<close>), the bytes or the read error. The request's \<open>method\<close>,
  \<open>headers\<close> and \<open>body\<close> carry the prefix \<open>req_\<close>; \<open>headers\<close> and \<open>body\<close>
  without prefix are the response's.
\<close>

record ServerRequest =
  req_method :: string
  url :: string
  req_headers :: Headers
  contentLength :: "nat option"
  req_body :: "js_error + bytes"

text \<open>A \<open>Response\<close>: \<open>status\<close>, and the optional \<open>body\<close> and \<open>headers\<close>.\<close>

record Response =
  status :: nat
  body :: "bytes option"
  headers :: "Headers option"

text \<open>
  A \<open>FormFile\<close> of the multipart module: \<open>content\<close> and \<open>tempfile\<close> are optional
  members (\<open>type\<close> and \<open>size\<close> are written \<open>filetype\<close> and \<open>filesize\<close>). The method
  \<open>file\<close> of a \<open>MultipartFormData\<close>, written \<open>file_field\<close>, gives, for a field name, one
  \<open>FormFile\<close>, an array of them, or \<open>undefined\<close>.
\<close>

record FormFile =
  filename :: string
  filetype :: string
  filesize :: nat
  content :: "bytes option"
  tempfile :: "string option"

datatype form_files = OneFile FormFile | ManyFiles "FormFile list"

record MultipartFormData =
  file_field :: "string \<Rightarrow> form_files option"

text \<open>
  The runtime and its standard library are not part of the sources; what the sources call
  of them is a parameter: \<open>new URL( text )\<close> and \<open>new URL( text, base )\<close>, which throw on
  a text that is no URL; \<open>new MultipartReader( req.r, boundary ).readForm()\<close>, a function of
  the request it reads and of the boundary; \<open>join\<close> of the path module; \<open>Deno.open\<close>
  (with \<open>write\<close> and \<open>create\<close>), which resolves to the resource id of the file, and
  \<open>Deno.write\<close>, which resolves to the number of bytes written.
\<close>

record Deno =
  new_URL :: "string \<Rightarrow> js_error + URL"
  new_URL_base :: "string \<Rightarrow> URL \<Rightarrow> js_error + URL"
  readForm :: "ServerRequest \<Rightarrow> string \<Rightarrow> js_error + MultipartFormData"
  join :: "string list \<Rightarrow> string"
  deno_open :: "string \<Rightarrow> js_error + nat"
  deno_write :: "nat \<Rightarrow> bytes \<Rightarrow> js_error + nat"

text \<open>
  The three providers are interfaces, implemented outside these sources: they are
  parameters. A method that returns a promise is the function from its arguments to the
  promise's outcome, and fails by rejecting, not by throwing before it returns the
  promise; one request calls each of them at most once. \<open>validateUUID\<close> is declared on
  strings; the handler also hands it \<open>path[ i ]\<close> where that is \<open>undefined\<close>, which
  \<open>valid_path\<close> below takes as rejected. So a path segment that has passed validation is
  present, and \<open>the\<close> reads it where a handler hands it on.
\<close>

record RequestsDataProvider =
  getSegmentList :: "string \<Rightarrow> string option \<Rightarrow> js_error + Segment list"

record RequestsUUIDProvider =
  validateUUID :: "string \<Rightarrow> bool"

record RequestsActionsProvider =
  createStream :: "js_error + UserStreamData"
  fetchStream :: "string \<Rightarrow> js_error + UserStreamData"
  processUploadFormData :: "ServerRequest \<Rightarrow> string \<Rightarrow> js_error + unit"
  connectStreamToHub :: "URL \<Rightarrow> string \<Rightarrow> js_error + unit"
  disconnectStreamFromHub :: "string \<Rightarrow> string \<Rightarrow> js_error + unit"
  connectedHubs :: "string \<Rightarrow> js_error + string list"
  encodeText :: "string \<Rightarrow> bytes"
  decodeText :: "bytes \<Rightarrow> string"

text \<open>The handler's three constructor parameters, and the runtime it runs on.\<close>

record RequestHandler =
  action :: RequestsActionsProvider
  data :: RequestsDataProvider
  uuid :: RequestsUUIDProvider
  deno :: Deno

definition valid_path :: "RequestHandler \<Rightarrow> string option \<Rightarrow> bool" where
  "valid_path h seg = (case seg of None \<Rightarrow> False | Some s \<Rightarrow> validateUUID (uuid h) s)"

text \<open>
  The handlers split the request's URL at \<open>/\<close> and read the pieces by index:
  \<open>path_seg req i\<close> is \<open>path[ i ]\<close>.
\<close>

definition path_seg :: "ServerRequest \<Rightarrow> nat \<Rightarrow> string option" where
  "path_seg req i = path_at (split_str (url req) CHR ''/'') i"

definition json_headers :: Headers where
  "json_headers = Headers_set Headers_new ''content-type'' ''application/json''"

text \<open>
  The \<open>catch\<close> block shared by the four method handlers: the response for what the
  \<open>try\<close> block returned or threw.
\<close>

definition catch_404 :: "RequestHandler \<Rightarrow> js_error + Response \<Rightarrow> Response" where
  "catch_404 h r =
     (case r of
        Inl e \<Rightarrow> \<lparr>status = 404, body = Some (encodeText (action h) (message e)), headers = None\<rparr>
      | Inr res \<Rightarrow> res)"

definition json_response :: "RequestHandler \<Rightarrow> json \<Rightarrow> Response" where
  "json_response h j =
     \<lparr>status = 200, body = Some (encodeText (action h) (JSON_stringify j)),
      headers = Some json_headers\<rparr>"

subsection \<open>POST\<close>

definition post_try :: "RequestHandler \<Rightarrow> ServerRequest \<Rightarrow> js_error + Response" where
  "post_try h req =
     (let path = split_str (url req) CHR ''/'' in
      if path_at path 1 = Some ''stream'' then
        (case createStream (action h) of
           Inl e \<Rightarrow> Inl e
         | Inr d \<Rightarrow> Inr (json_response h (UserStreamData_json d)))
      else if \<not> valid_path h (path_at path 1) then Inl (Error ''Invalid path'')
      else
        (case processUploadFormData (action h) req (the (path_at path 1)) of
           Inl e \<Rightarrow> Inl e
         | Inr _ \<Rightarrow>
             Inr \<lparr>status = 200, body = Some (encodeText (action h) ''Success\<newline>''),
                  headers = None\<rparr>))"

definition post :: "RequestHandler \<Rightarrow> ServerRequest \<Rightarrow> Response" where
  "post h req = catch_404 h (post_try h req)"

subsection \<open>PUT\<close>

text \<open>
  \<open>!req.contentLength\<close> holds for \<open>null\<close> and for \<open>0\<close>. The call of
  \<open>connectStreamToHub\<close> is not awaited: the handler returns its response without the
  promise's outcome, which \<open>put_run\<close> gives beside the response (\<open>None\<close> when the call was
  not reached). What the runtime does with a rejected promise that nothing awaits is not
  part of the handler and not modelled.
\<close>

definition no_data :: "ServerRequest \<Rightarrow> bool" where
  "no_data req = (case contentLength req of None \<Rightarrow> True | Some n \<Rightarrow> n = 0)"

definition put_run ::
  "RequestHandler \<Rightarrow> ServerRequest \<Rightarrow> (js_error + Response) \<times> (js_error + unit) option" where
  "put_run h req =
     (let path = split_str (url req) CHR ''/'' in
      if \<not> valid_path h (path_at path 1) \<or> path_at path 2 \<noteq> Some ''admin''
        then (Inl (Error ''Invalid path''), None)
      else if no_data req then (Inl (Error ''No data''), None)
      else
        (case req_body req of
           Inl e \<Rightarrow> (Inl e, None)
         | Inr bs \<Rightarrow>
             (case new_URL (deno h) (decodeText (action h) bs) of
                Inl e \<Rightarrow> (Inl e, None)
              | Inr hubURL \<Rightarrow>
                  (Inr \<lparr>status = 200, body = None, headers = None\<rparr>,
                   Some (connectStreamToHub (action h) hubURL (the (path_at path 1)))))))"

definition put :: "RequestHandler \<Rightarrow> ServerRequest \<Rightarrow> Response" where
  "put h req = catch_404 h (fst (put_run h req))"

subsection \<open>DELETE\<close>

definition delete_try :: "RequestHandler \<Rightarrow> ServerRequest \<Rightarrow> js_error + Response" where
  "delete_try h req =
     (let path = split_str (url req) CHR ''/'' in
      if \<not> valid_path h (path_at path 1) \<or> path_at path 2 \<noteq> Some ''admin''
        then Inl (Error ''Invalid path'')
      else if no_data req then Inl (Error ''No data'')
      else
        (case req_body req of
           Inl e \<Rightarrow> Inl e
         | Inr bs \<Rightarrow>
             (case disconnectStreamFromHub (action h) (decodeText (action h) bs)
                     (the (path_at path 1)) of
                Inl e \<Rightarrow> Inl e
              | Inr _ \<Rightarrow> Inr \<lparr>status = 200, body = None, headers = None\<rparr>)))"

definition delete :: "RequestHandler \<Rightarrow> ServerRequest \<Rightarrow> Response" where
  "delete h req = catch_404 h (delete_try h req)"

subsection \<open>GET\<close>

definition get_try :: "RequestHandler \<Rightarrow> ServerRequest \<Rightarrow> js_error + Response" where
  "get_try h req =
     (let path = split_str (url req) CHR ''/'' in
      if \<not> valid_path h (path_at path 1) then Inl (Error ''Invalid path'')
      else if path_at path 2 = Some ''hubs'' then
        (case connectedHubs (action h) (the (path_at path 1)) of
           Inl e \<Rightarrow> Inl e
         | Inr hubs \<Rightarrow> Inr (json_response h (JArray (map JString hubs))))
      else if path_at path 2 = Some ''admin'' then
        (case fetchStream (action h) (the (path_at path 1)) of
           Inl e \<Rightarrow> Inl e
         | Inr d \<Rightarrow> Inr (json_response h (UserStreamData_json d)))
      else
        (case getSegmentList (data h) (the (path_at path 1))
                (if valid_path h (path_at path 2) then path_at path 2 else None) of
           Inl e \<Rightarrow> Inl e
         | Inr segs \<Rightarrow> Inr (json_response h (JArray (map Segment_json segs)))))"

definition get :: "RequestHandler \<Rightarrow> ServerRequest \<Rightarrow> Response" where
  "get h req = catch_404 h (get_try h req)"

subsection \<open>CORS, method dispatch and the response sent\<close>

definition setCORS :: "Response \<Rightarrow> Response" where
  "setCORS res =
     (let h0 = (case headers res of None \<Rightarrow> Headers_new | Some hs \<Rightarrow> hs);
          h1 = Headers_append h0 ''access-control-allow-origin'' ''*'';
          h2 = Headers_append h1 ''access-control-allow-method'' ''GET'';
          h3 = Headers_append h2 ''access-control-allow-headers''
                 ''Origin, X-Requested-With, Content-Type, Accept, Range''
      in res\<lparr>headers := Some h3\<rparr>)"

definition selectMethod :: "RequestHandler \<Rightarrow> ServerRequest \<Rightarrow> Response" where
  "selectMethod h req =
     (if req_method req = ''GET'' then get h req
      else if req_method req = ''POST'' then post h req
      else if req_method req = ''PUT'' then put h req
      else if req_method req = ''DELETE'' then delete h req
      else if req_method req = ''OPTIONS'' then \<lparr>status = 200, body = None, headers = None\<rparr>
      else \<lparr>status = 400,
            body = Some (encodeText (action h) ''This is not a valid request.''),
            headers = None\<rparr>)"

text \<open>\<open>handle\<close> sends one response with \<open>req.respond\<close>: the value of \<open>handle\<close> here.\<close>

definition handle :: "RequestHandler \<Rightarrow> ServerRequest \<Rightarrow> Response" where
  "handle h req = setCORS (selectMethod h req)"

section \<open>The upload form handler\<close>

text \<open>
  The class \<open>UploadFormHandler\<close>, which the sources hold behind the rules of the
  Makefile, and its providers; \<open>uuid\<close> of the random provider is the outcome of its one
  call, written \<open>random_uuid\<close>, the handler's \<open>data\<close> is written \<open>upload_data\<close>, and
  \<open>std\<close> is the runtime it runs on.
\<close>

record UploadDataProvider =
  addSegmentURL :: "string \<Rightarrow> string \<Rightarrow> URL \<Rightarrow> js_error + unit"
  getStreamPublicIDFromStreamAdminID :: "string \<Rightarrow> js_error + string"

record UploadRandomProvider =
  random_uuid :: "js_error + string"

record UploadCoreProvider =
  rootDir :: string
  fileURL :: URL

record UploadFormHandler =
  core :: UploadCoreProvider
  upload_data :: UploadDataProvider
  random :: UploadRandomProvider
  std :: Deno

text \<open>
  What \<open>process\<close> does to the world, in the order it does it: each call of a provider or
  of the runtime that reads or changes anything outside is one entry, recorded when the call
  is made, whatever its outcome.
\<close>

datatype effect =
    GetStreamPublicID string
  | ReadForm string
  | RandomUUID
  | DenoOpen string
  | DenoWrite nat bytes
  | DenoClose nat
  | AddSegmentURL string string URL
  | ConsoleError string

text \<open>
  The \<open>try\<close> block at the end of \<open>process\<close>: the URL is built inside it, as an argument
  of \<open>addSegmentURL\<close>, so a throw of either is caught, logged and not rethrown.
\<close>

definition register_failed :: "string \<Rightarrow> string \<Rightarrow> string" where
  "register_failed segID publicID =
     ''Failed to create segment entry '' @ segID @ '' for '' @ publicID"

definition register_segment ::
  "UploadFormHandler \<Rightarrow> string \<Rightarrow> string \<Rightarrow> string \<Rightarrow> effect list" where
  "register_segment h segID publicID fileLocation =
     (case new_URL_base (std h) fileLocation (fileURL (core h)) of
        Inl e \<Rightarrow> [ConsoleError (register_failed segID publicID)]
      | Inr u \<Rightarrow>
          (case addSegmentURL (upload_data h) segID publicID u of
             Inl e \<Rightarrow> [AddSegmentURL segID publicID u,
                       ConsoleError (register_failed segID publicID)]
           | Inr _ \<Rightarrow> [AddSegmentURL segID publicID u]))"

text \<open>
  From the file field to the end of \<open>process\<close>. The guard returns when \<open>formFile\<close> is
  \<open>undefined\<close>, when it is an array, and when its \<open>content\<close> is \<open>undefined\<close>: a
  \<open>Uint8Array\<close> is an object, and an object is truthy whatever its length.
\<close>

definition store_segment ::
  "UploadFormHandler \<Rightarrow> string \<Rightarrow> form_files option \<Rightarrow> (js_error + unit) \<times> effect list" where
  "store_segment h publicID formFile =
     (case formFile of
        None \<Rightarrow> (Inr (), [])
      | Some (ManyFiles fs) \<Rightarrow> (Inr (), [])
      | Some (OneFile f) \<Rightarrow>
          (case content f of
             None \<Rightarrow> (Inr (), [])
           | Some bs \<Rightarrow>
               (case random_uuid (random h) of
                  Inl e \<Rightarrow> (Inl e, [RandomUUID])
                | Inr segID \<Rightarrow>
                    (let fileLocation = join (std h) [publicID, segID @ ''.opus''];
                         target = join (std h) [rootDir (core h), ''audio'', fileLocation]
                     in case deno_open (std h) target of
                          Inl e \<Rightarrow> (Inl e, [RandomUUID, DenoOpen target])
                        | Inr rid \<Rightarrow>
                            (case deno_write (std h) rid bs of
                               Inl e \<Rightarrow> (Inl e, [RandomUUID, DenoOpen target, DenoWrite rid bs])
                             | Inr _ \<Rightarrow>
                                 (Inr (),
                                  [RandomUUID, DenoOpen target, DenoWrite rid bs, DenoClose rid]
                                  @ register_segment h segID publicID fileLocation))))))"

text \<open>
  \<open>process\<close>: its outcome (\<open>Inl\<close> what it throws) and what it did. \<open>!contentType\<close> holds
  for \<open>null\<close> and for the empty string.
\<close>

definition process ::
  "UploadFormHandler \<Rightarrow> ServerRequest \<Rightarrow> string \<Rightarrow> (js_error + unit) \<times> effect list" where
  "process h req streamAdminID =
     (case Headers_get (req_headers req) ''content-type'' of
        None \<Rightarrow> (Inl (Error ''Missing content type header\<newline>''), [])
      | Some contentType \<Rightarrow>
          if contentType = [] then (Inl (Error ''Missing content type header\<newline>''), [])
          else
            (case getStreamPublicIDFromStreamAdminID (upload_data h) streamAdminID of
               Inl e \<Rightarrow> (Inl e, [GetStreamPublicID streamAdminID])
             | Inr publicID \<Rightarrow>
                 (let boundary = substr contentType (indexOf contentType CHR ''='' + 1)
                  in case readForm (std h) req boundary of
                       Inl e \<Rightarrow> (Inl e, [GetStreamPublicID streamAdminID, ReadForm boundary])
                     | Inr form \<Rightarrow>
                         (let r = store_segment h publicID (file_field form ''audio'')
                          in (fst r,
                              [GetStreamPublicID streamAdminID, ReadForm boundary] @ snd r)))))"

section \<open>The hub fan-out manager\<close>

text \<open>
  The sources declare the hub operations (\<open>connectStreamToHub\<close>, \<open>disconnectStreamFromHub\<close>
  and \<open>connectedHubs\<close> of \<open>RequestsActionsProvider\<close>) and do not implement them. The store
  of the manager maps each admin identifier that resolves to a stream to the stream's
  registrations, pairs of hub handle and hub URL. The spec names the error \<open>UnknownStream\<close>
  and not its message, and does not say how the handle of a URL is made: the message is the
  name, the handle of a URL is a parameter.
\<close>

type_synonym hub_store = "string \<Rightarrow> (string \<times> URL) list option"

definition UnknownStream :: js_error where
  "UnknownStream = Error ''UnknownStream''"

text \<open>
  Modelled from the spec: \<open>connect\<close> of the Hub Fan-out Manager, absent from the sources.
  It registers a callback target under the stream, and fails with \<open>UnknownStream\<close> if the
  admin identifier is invalid.
\<close>

definition hub_connect ::
  "hub_store \<Rightarrow> (URL \<Rightarrow> string) \<Rightarrow> URL \<Rightarrow> string \<Rightarrow> (js_error + unit) \<times> hub_store" where
  "hub_connect st hid hubURL adminID =
     (case st adminID of
        None \<Rightarrow> (Inl UnknownStream, st)
      | Some regs \<Rightarrow> (Inr (), st(adminID \<mapsto> regs @ [(hid hubURL, hubURL)])))"

text \<open>
  Modelled from the spec: \<open>disconnect\<close> of the Hub Fan-out Manager, absent from the
  sources. It removes a registration by its handle; removing a handle that is not registered
  is a no-op, not an error; it fails with \<open>UnknownStream\<close> if the admin identifier is
  invalid.
\<close>

definition hub_disconnect ::
  "hub_store \<Rightarrow> string \<Rightarrow> string \<Rightarrow> (js_error + unit) \<times> hub_store" where
  "hub_disconnect st hubID adminID =
     (case st adminID of
        None \<Rightarrow> (Inl UnknownStream, st)
      | Some regs \<Rightarrow> (Inr (), st(adminID \<mapsto> filter (\<lambda>r. fst r \<noteq> hubID) regs)))"

text \<open>
  Modelled from the spec: \<open>list\<close> of the Hub Fan-out Manager, absent from the sources. It
  returns the registered hub handles, and fails with \<open>UnknownStream\<close> if the admin
  identifier is invalid.
\<close>

definition hub_list :: "hub_store \<Rightarrow> string \<Rightarrow> js_error + string list" where
  "hub_list st adminID =
     (case st adminID of
        None \<Rightarrow> Inl UnknownStream
      | Some regs \<Rightarrow> Inr (map fst regs))"

text \<open>A request handler whose three hub operations are the manager's, on a given store.\<close>

definition with_hubs :: "hub_store \<Rightarrow> (URL \<Rightarrow> string) \<Rightarrow> RequestHandler \<Rightarrow> RequestHandler" where
  "with_hubs st hid h =
     h\<lparr>action := (action h)
          \<lparr>connectStreamToHub := (\<lambda>hubURL adminID. fst (hub_connect st hid hubURL adminID)),
           disconnectStreamFromHub := (\<lambda>hubID adminID. fst (hub_disconnect st hubID adminID)),
           connectedHubs := hub_list st\<rparr>\<rparr>"

section \<open>Concrete providers and requests\<close>

text \<open>
  A text encoder and decoder for texts of one-byte characters, and a validator for
  identifiers of ten characters over letters, digits, \<open>_\<close> and \<open>-\<close>.
\<close>

definition ex_encode :: "string \<Rightarrow> bytes" where
  "ex_encode s = map of_char s"

definition ex_decode :: "bytes \<Rightarrow> string" where
  "ex_decode bs = map (\<lambda>b. char_of (unat b)) bs"

definition ex_alphabet :: string where
  "ex_alphabet = ''abcdefghijklmnopqrstuvwxyzABCDEFGHIJKLMNOPQRSTUVWXYZ0123456789_-''"

definition ex_validateUUID :: "string \<Rightarrow> bool" where
  "ex_validateUUID s = (length s = 10 \<and> list_all (\<lambda>c. c \<in> set ex_alphabet) s)"

text \<open>
  A multipart reader for the bodies below. A body is a sequence of lines that end in CR LF;
  the line \<open>--boundary\<close> opens a part, the line \<open>--boundary--\<close> ends the body, and a body
  that ends before that line is an error. A part is its header lines, an empty line and
  its payload; a part whose first header names a field and a file
  (\<open>Content-Disposition: form-data; name="n"; filename="f"\<close>) is a file of the field,
  held in memory with the payload as its \<open>content\<close>, also when the payload has no byte.
  The reader is handed the boundary and looks for no other.
\<close>

definition CRLF :: string where
  "CRLF = [CHR 0x0D, CHR 0x0A]"

definition strip_cr :: "string \<Rightarrow> string" where
  "strip_cr l = (if l \<noteq> [] \<and> last l = CHR 0x0D then butlast l else l)"

fun read_parts :: "string \<Rightarrow> string list \<Rightarrow> string list \<Rightarrow> string list list option" where
  "read_parts delim cur [] = None"
| "read_parts delim cur (l # ls) =
     (if l = delim @ ''--'' then Some [rev cur]
      else if l = delim then map_option (Cons (rev cur)) (read_parts delim [] ls)
      else read_parts delim (l # cur) ls)"

definition part_file :: "string list \<Rightarrow> (string \<times> FormFile) list" where
  "part_file ls =
     (case ls of
        [] \<Rightarrow> []
      | l # rest \<Rightarrow>
          (case split_str l (CHR 0x22) of
             [_, name, _, fname, _] \<Rightarrow>
               (let payload = join_with CRLF (drop 1 (dropWhile (\<lambda>x. x \<noteq> []) rest))
                in [(name, \<lparr>filename = fname, filetype = ''audio/ogg'',
                            filesize = length payload,
                            content = Some (ex_encode payload), tempfile = None\<rparr>)])
           | _ \<Rightarrow> []))"

definition form_of :: "(string \<times> FormFile) list \<Rightarrow> MultipartFormData" where
  "form_of fs =
     \<lparr>file_field = (\<lambda>n. case map snd (filter (\<lambda>e. fst e = n) fs) of
                           [] \<Rightarrow> None
                         | [f] \<Rightarrow> Some (OneFile f)
                         | many \<Rightarrow> Some (ManyFiles many))\<rparr>"

definition ex_readForm :: "ServerRequest \<Rightarrow> string \<Rightarrow> js_error + MultipartFormData" where
  "ex_readForm req boundary =
     (if boundary = [] then Inl (Error ''boundary is empty'')
      else
        (case req_body req of
           Inl e \<Rightarrow> Inl e
         | Inr bs \<Rightarrow>
             (case read_parts (''--'' @ boundary) []
                     (map strip_cr (split_str (ex_decode bs) (CHR 0x0A))) of
                None \<Rightarrow> Inl (Error ''unexpected EOF'')
              | Some ps \<Rightarrow> Inr (form_of (concat (map part_file (drop 1 ps)))))))"

text \<open>A body with one part per (field, file name, payload), for a boundary.\<close>

definition ex_body :: "string \<Rightarrow> (string \<times> string \<times> string) list \<Rightarrow> bytes" where
  "ex_body boundary ps =
     ex_encode
       (concat (map (\<lambda>(name, fname, payload).
                  ''--'' @ boundary @ CRLF
                  @ ''Content-Disposition: form-data; name='' @ [CHR 0x22] @ name @ [CHR 0x22]
                  @ ''; filename='' @ [CHR 0x22] @ fname @ [CHR 0x22] @ CRLF
                  @ ''Content-Type: audio/ogg'' @ CRLF @ CRLF
                  @ payload @ CRLF) ps)
        @ ''--'' @ boundary @ ''--'' @ CRLF)"

definition ex_deno :: Deno where
  "ex_deno =
     \<lparr>new_URL = (\<lambda>s. if take 8 s = ''https://'' \<or> take 7 s = ''http://''
                      then Inr (URL s) else Inl (Error ''Invalid URL'')),
      new_URL_base = (\<lambda>rel base. Inr (URL (href base @ rel))),
      readForm = ex_readForm,
      join = join_with ''/'',
      deno_open = (\<lambda>target. Inr 3),
      deno_write = (\<lambda>rid bs. Inr (length bs))\<rparr>"

text \<open>
  An upload handler over one stream, \<open>adminAAAAA\<close> with the public identifier
  \<open>publicPPPP\<close>, and the same handler over a store that refuses every registration.
\<close>

definition ex_upload :: UploadFormHandler where
  "ex_upload =
     \<lparr>core = \<lparr>rootDir = ''/srv/sludge'', fileURL = URL ''https://files.example/audio/''\<rparr>,
      upload_data =
        \<lparr>addSegmentURL = (\<lambda>segID publicID u. Inr ()),
         getStreamPublicIDFromStreamAdminID =
           (\<lambda>a. if a = ''adminAAAAA'' then Inr ''publicPPPP'' else Inl UnknownStream)\<rparr>,
      random = \<lparr>random_uuid = Inr ''segment001''\<rparr>,
      std = ex_deno\<rparr>"

definition ex_upload_refusing :: UploadFormHandler where
  "ex_upload_refusing =
     ex_upload\<lparr>upload_data :=
       (upload_data ex_upload)\<lparr>addSegmentURL :=
          (\<lambda>segID publicID u. Inl (Error ''store is read-only''))\<rparr>\<rparr>"





definition ex_upload_request :: "string \<Rightarrow> string option \<Rightarrow> bytes \<Rightarrow> ServerRequest" where
  "ex_upload_request u ct bs =
     \<lparr>req_method = ''POST'', url = u,
      req_headers = (case ct of None \<Rightarrow> [] | Some t \<Rightarrow> [(''content-type'', t)]),
      contentLength = Some (length bs), req_body = Inr bs\<rparr>"

text \<open>
  Uploads: to the known stream with one audio file, with an audio file without a byte, with
  no part, with two audio files; with a content type without boundary parameter, the body
  using that content type as its boundary; and to a stream that does not exist.
\<close>

definition ex_post_audio :: ServerRequest where
  "ex_post_audio =
     ex_upload_request ''/adminAAAAA'' (Some ''multipart/form-data; boundary=xyz'')
       (ex_body ''xyz'' [(''audio'', ''a.opus'', ''OggS'')])"

definition ex_post_empty_audio :: ServerRequest where
  "ex_post_empty_audio =
     ex_upload_request ''/adminAAAAA'' (Some ''multipart/form-data; boundary=xyz'')
       (ex_body ''xyz'' [(''audio'', ''a.opus'', [])])"

definition ex_post_no_audio :: ServerRequest where
  "ex_post_no_audio =
     ex_upload_request ''/adminAAAAA'' (Some ''multipart/form-data; boundary=xyz'')
       (ex_body ''xyz'' [])"

definition ex_post_two_audio :: ServerRequest where
  "ex_post_two_audio =
     ex_upload_request ''/adminAAAAA'' (Some ''multipart/form-data; boundary=xyz'')
       (ex_body ''xyz'' [(''audio'', ''a.opus'', ''OggS''), (''audio'', ''b.opus'', ''OggS'')])"

definition ex_post_plain :: ServerRequest where
  "ex_post_plain =
     ex_upload_request ''/adminAAAAA'' (Some ''text/plain'')
       (ex_body ''text/plain'' [(''audio'', ''a.opus'', ''OggS'')])"

definition ex_post_unknown :: ServerRequest where
  "ex_post_unknown =
     ex_upload_request ''/adminBBBBB'' (Some ''multipart/form-data; boundary=xyz'')
       (ex_body ''xyz'' [(''audio'', ''a.opus'', ''OggS'')])"

text \<open>
  A request handler over the same stream: its hub operations are the manager's on a store
  that knows \<open>adminAAAAA\<close> only, its upload is \<open>process\<close>, its playlist has two segments.
\<close>

definition ex_stream :: UserStreamData where
  "ex_stream = \<lparr>admin = ''adminAAAAA'', download = ''publicPPPP'', hub = ''hubHHHHHHH''\<rparr>"

definition ex_segments :: "Segment list" where
  "ex_segments =
     [\<lparr>segmentID = ''segment001'', streamPublicID = ''publicPPPP'',
       segmentURL = ''https://files.example/audio/publicPPPP/segment001.opus''\<rparr>,
      \<lparr>segmentID = ''segment002'', streamPublicID = ''publicPPPP'',
       segmentURL = ''https://files.example/audio/publicPPPP/segment002.opus''\<rparr>]"

definition ex_getSegmentList :: "string \<Rightarrow> string option \<Rightarrow> js_error + Segment list" where
  "ex_getSegmentList p cursor =
     (if p \<noteq> ''publicPPPP'' then Inl UnknownStream
      else
        (case cursor of
           None \<Rightarrow> Inr ex_segments
         | Some c \<Rightarrow>
             (if c \<in> set (map segmentID ex_segments)
              then Inr (drop 1 (dropWhile (\<lambda>x. segmentID x \<noteq> c) ex_segments))
              else Inr ex_segments)))"

definition ex_store :: hub_store where
  "ex_store = [''adminAAAAA'' \<mapsto> []]"

definition ex_action :: RequestsActionsProvider where
  "ex_action =
     \<lparr>createStream = Inr ex_stream,
      fetchStream = (\<lambda>a. if a = admin ex_stream then Inr ex_stream else Inl UnknownStream),
      processUploadFormData = (\<lambda>req a. fst (process ex_upload req a)),
      connectStreamToHub = (\<lambda>u a. Inr ()),
      disconnectStreamFromHub = (\<lambda>i a. Inr ()),
      connectedHubs = (\<lambda>a. Inr []),
      encodeText = ex_encode,
      decodeText = ex_decode\<rparr>"

definition ex_handler :: RequestHandler where
  "ex_handler =
     with_hubs ex_store href
       \<lparr>action = ex_action,
        data = \<lparr>getSegmentList = ex_getSegmentList\<rparr>,
        uuid = \<lparr>validateUUID = ex_validateUUID\<rparr>,
        deno = ex_deno\<rparr>"

text \<open>The same handler with the upload handler whose store refuses registrations.\<close>

definition ex_handler_refusing :: RequestHandler where
  "ex_handler_refusing =
     ex_handler\<lparr>action := (action ex_handler)
       \<lparr>processUploadFormData := (\<lambda>req a. fst (process ex_upload_refusing req a))\<rparr>\<rparr>"

text \<open>
  A handler whose identifiers have five characters, so that its validator accepts the word
  \<open>admin\<close>; its playlist of \<open>publc\<close> has the two segments, whatever the cursor.
\<close>

definition ex_validateUUID5 :: "string \<Rightarrow> bool" where
  "ex_validateUUID5 s = (length s = 5 \<and> list_all (\<lambda>c. c \<in> set ex_alphabet) s)"

definition ex_handler5 :: RequestHandler where
  "ex_handler5 =
     ex_handler
       \<lparr>data := \<lparr>getSegmentList =
                    (\<lambda>p cursor. if p = ''publc'' then Inr ex_segments else Inl UnknownStream)\<rparr>,
        uuid := \<lparr>validateUUID = ex_validateUUID5\<rparr>\<rparr>"

text \<open>The same handler over a hub store that is out of reach: every connect fails.\<close>

definition ex_handler_offline :: RequestHandler where
  "ex_handler_offline =
     ex_handler\<lparr>action := (action ex_handler)
       \<lparr>connectStreamToHub := (\<lambda>u a. Inl (Error ''hub store offline''))\<rparr>\<rparr>"

definition ex_request :: "string \<Rightarrow> string \<Rightarrow> ServerRequest" where
  "ex_request m u =
     \<lparr>req_method = m, url = u, req_headers = [], contentLength = None, req_body = Inr []\<rparr>"

definition ex_request_body :: "string \<Rightarrow> string \<Rightarrow> string \<Rightarrow> ServerRequest" where
  "ex_request_body m u text =
     \<lparr>req_method = m, url = u, req_headers = [],
      contentLength = Some (length text), req_body = Inr (ex_encode text)\<rparr>"

section \<open>Properties\<close>

subsection \<open>The handlers, by path segment\<close>

lemma json_headers_eq: "json_headers = [(''content-type'', ''application/json'')]"
  by (simp add: json_headers_def Headers_set_def Headers_new_def)

lemma valid_path_Some: "valid_path h (Some s) = validateUUID (uuid h) s"
  by (simp add: valid_path_def)

lemma valid_path_None: "\<not> valid_path h None"
  by (simp add: valid_path_def)

lemma valid_pathD: "valid_path h seg \<Longrightarrow> \<exists>s. seg = Some s \<and> validateUUID (uuid h) s"
  by (cases seg) (simp_all add: valid_path_def)

lemma post_try_eq:
  "post_try h req =
     (if path_seg req 1 = Some ''stream'' then
        (case createStream (action h) of
           Inl e \<Rightarrow> Inl e
         | Inr d \<Rightarrow> Inr (json_response h (UserStreamData_json d)))
      else if \<not> valid_path h (path_seg req 1) then Inl (Error ''Invalid path'')
      else
        (case processUploadFormData (action h) req (the (path_seg req 1)) of
           Inl e \<Rightarrow> Inl e
         | Inr _ \<Rightarrow>
             Inr \<lparr>status = 200, body = Some (encodeText (action h) ''Success\<newline>''),
                  headers = None\<rparr>))"
  unfolding post_try_def path_seg_def Let_def by (rule refl)

lemma put_run_eq:
  "put_run h req =
     (if \<not> valid_path h (path_seg req 1) \<or> path_seg req 2 \<noteq> Some ''admin''
        then (Inl (Error ''Invalid path''), None)
      else if no_data req then (Inl (Error ''No data''), None)
      else
        (case req_body req of
           Inl e \<Rightarrow> (Inl e, None)
         | Inr bs \<Rightarrow>
             (case new_URL (deno h) (decodeText (action h) bs) of
                Inl e \<Rightarrow> (Inl e, None)
              | Inr hubURL \<Rightarrow>
                  (Inr \<lparr>status = 200, body = None, headers = None\<rparr>,
                   Some (connectStreamToHub (action h) hubURL (the (path_seg req 1)))))))"
  unfolding put_run_def path_seg_def Let_def by (rule refl)

lemma delete_try_eq:
  "delete_try h req =
     (if \<not> valid_path h (path_seg req 1) \<or> path_seg req 2 \<noteq> Some ''admin''
        then Inl (Error ''Invalid path'')
      else if no_data req then Inl (Error ''No data'')
      else
        (case req_body req of
           Inl e \<Rightarrow> Inl e
         | Inr bs \<Rightarrow>
             (case disconnectStreamFromHub (action h) (decodeText (action h) bs)
                     (the (path_seg req 1)) of
                Inl e \<Rightarrow> Inl e
              | Inr _ \<Rightarrow> Inr \<lparr>status = 200, body = None, headers = None\<rparr>)))"
  unfolding delete_try_def path_seg_def Let_def by (rule refl)

lemma get_try_eq:
  "get_try h req =
     (if \<not> valid_path h (path_seg req 1) then Inl (Error ''Invalid path'')
      else if path_seg req 2 = Some ''hubs'' then
        (case connectedHubs (action h) (the (path_seg req 1)) of
           Inl e \<Rightarrow> Inl e
         | Inr hubs \<Rightarrow> Inr (json_response h (JArray (map JString hubs))))
      else if path_seg req 2 = Some ''admin'' then
        (case fetchStream (action h) (the (path_seg req 1)) of
           Inl e \<Rightarrow> Inl e
         | Inr d \<Rightarrow> Inr (json_response h (UserStreamData_json d)))
      else
        (case getSegmentList (data h) (the (path_seg req 1))
                (if valid_path h (path_seg req 2) then path_seg req 2 else None) of
           Inl e \<Rightarrow> Inl e
         | Inr segs \<Rightarrow> Inr (json_response h (JArray (map Segment_json segs)))))"
  unfolding get_try_def path_seg_def Let_def by (rule refl)

text \<open>The headers of a response before \<open>setCORS\<close>: none, or the JSON content type alone.\<close>

lemma catch_404_headers:
  assumes "\<And>r. t = Inr r \<Longrightarrow> headers r = None \<or> headers r = Some json_headers"
  shows "headers (catch_404 h t) = None \<or> headers (catch_404 h t) = Some json_headers"
  using assms by (cases t) (simp_all add: catch_404_def)

lemma get_headers: "headers (get h req) = None \<or> headers (get h req) = Some json_headers"
  unfolding get_def
  by (rule catch_404_headers)
     (auto simp add: get_try_eq json_response_def split: if_splits sum.splits)

lemma post_headers: "headers (post h req) = None \<or> headers (post h req) = Some json_headers"
  unfolding post_def
  by (rule catch_404_headers)
     (auto simp add: post_try_eq json_response_def split: if_splits sum.splits)

lemma put_headers: "headers (put h req) = None \<or> headers (put h req) = Some json_headers"
  unfolding put_def
  by (rule catch_404_headers)
     (auto simp add: put_run_eq split: if_splits sum.splits)

lemma delete_headers:
  "headers (delete h req) = None \<or> headers (delete h req) = Some json_headers"
  unfolding delete_def
  by (rule catch_404_headers)
     (auto simp add: delete_try_eq split: if_splits sum.splits)

lemma selectMethod_headers:
  "headers (selectMethod h req) = None \<or> headers (selectMethod h req) = Some json_headers"
  using get_headers[of h req] post_headers[of h req] put_headers[of h req]
        delete_headers[of h req]
  by (simp add: selectMethod_def)

lemma setCORS_headers:
  "headers (setCORS res) =
     Some ((case headers res of None \<Rightarrow> [] | Some hs \<Rightarrow> hs)
           @ [(''access-control-allow-origin'', ''*''),
              (''access-control-allow-method'', ''GET''),
              (''access-control-allow-headers'',
               ''Origin, X-Requested-With, Content-Type, Accept, Range'')])"
  by (simp add: setCORS_def Headers_append_def Headers_new_def split: option.splits)

lemma handle_headers:
  "headers (handle h req) =
     Some [(''access-control-allow-origin'', ''*''),
           (''access-control-allow-method'', ''GET''),
           (''access-control-allow-headers'',
            ''Origin, X-Requested-With, Content-Type, Accept, Range'')]
   \<or> headers (handle h req) =
     Some [(''content-type'', ''application/json''),
           (''access-control-allow-origin'', ''*''),
           (''access-control-allow-method'', ''GET''),
           (''access-control-allow-headers'',
            ''Origin, X-Requested-With, Content-Type, Accept, Range'')]"
  using selectMethod_headers[of h req]
  by (auto simp add: handle_def setCORS_headers json_headers_eq)

text \<open>The concrete handler's parts.\<close>

lemma ex_handler_parts:
  "uuid ex_handler = \<lparr>validateUUID = ex_validateUUID\<rparr>"
  "data ex_handler = \<lparr>getSegmentList = ex_getSegmentList\<rparr>"
  "deno ex_handler = ex_deno"
  "encodeText (action ex_handler) = ex_encode"
  "decodeText (action ex_handler) = ex_decode"
  "createStream (action ex_handler) = Inr ex_stream"
  "fetchStream (action ex_handler) =
     (\<lambda>a. if a = admin ex_stream then Inr ex_stream else Inl UnknownStream)"
  "processUploadFormData (action ex_handler) = (\<lambda>req a. fst (process ex_upload req a))"
  "connectStreamToHub (action ex_handler) = (\<lambda>u a. fst (hub_connect ex_store href u a))"
  "disconnectStreamFromHub (action ex_handler) = (\<lambda>i a. fst (hub_disconnect ex_store i a))"
  "connectedHubs (action ex_handler) = hub_list ex_store"
  by (simp_all add: ex_handler_def with_hubs_def ex_action_def)

lemma ex_valid_ids:
  "ex_validateUUID ''adminAAAAA''" "ex_validateUUID ''adminBBBBB''"
  "ex_validateUUID ''publicPPPP''" "ex_validateUUID ''segment001''"
  "\<not> ex_validateUUID ''not-a-valid-id''" "\<not> ex_validateUUID ''latest''"
  by (simp_all add: ex_validateUUID_def ex_alphabet_def)

lemma ex_path_segs:
  "path_seg (ex_request m ''/stream'') 1 = Some ''stream''"
  "path_seg (ex_request m ''/adminAAAAA/admin'') 1 = Some ''adminAAAAA''"
  "path_seg (ex_request m ''/adminAAAAA/admin'') 2 = Some ''admin''"
  "path_seg (ex_request m ''/adminBBBBB/hubs'') 1 = Some ''adminBBBBB''"
  "path_seg (ex_request m ''/adminBBBBB/hubs'') 2 = Some ''hubs''"
  "path_seg (ex_request m ''/publicPPPP'') 1 = Some ''publicPPPP''"
  "path_seg (ex_request m ''/publicPPPP'') 2 = None"
  "path_seg (ex_request m ''/publicPPPP/segment001'') 1 = Some ''publicPPPP''"
  "path_seg (ex_request m ''/publicPPPP/segment001'') 2 = Some ''segment001''"
  "path_seg (ex_request m ''/publicPPPP/latest'') 1 = Some ''publicPPPP''"
  "path_seg (ex_request m ''/publicPPPP/latest'') 2 = Some ''latest''"
  "path_seg (ex_request m ''/not-a-valid-id'') 1 = Some ''not-a-valid-id''"
  "path_seg (ex_request_body m ''/adminBBBBB/admin'' t) 1 = Some ''adminBBBBB''"
  "path_seg (ex_request_body m ''/adminBBBBB/admin'' t) 2 = Some ''admin''"
  "path_seg (ex_request_body m ''/adminAAAAA/admin'' t) 1 = Some ''adminAAAAA''"
  "path_seg (ex_request_body m ''/adminAAAAA/admin'' t) 2 = Some ''admin''"
  by (simp_all add: path_seg_def path_at_def ex_request_def ex_request_body_def)

lemma unat_of_char: "unat (of_char c :: 8 word) = of_char c"
proof -
  have "(of_char c :: 8 word) = of_nat (of_char c)"
    by (simp add: of_nat_of_char)
  then have "unat (of_char c :: 8 word) = (of_char c :: nat) mod 256"
    by (simp add: unat_of_nat)
  then show ?thesis
    by simp
qed

lemma ex_decode_encode: "ex_decode (ex_encode s) = s"
  by (simp add: ex_decode_def ex_encode_def unat_of_char map_idI)


lemma ex_request_body_facts:
  "\<not> no_data (ex_request_body m u (c # cs))"
  "req_body (ex_request_body m u t) = Inr (ex_encode t)"
  by (simp_all add: ex_request_body_def no_data_def)

lemma ex_store_facts:
  "ex_store ''adminBBBBB'' = None"
  "ex_store ''adminAAAAA'' = Some []"
  by (simp_all add: ex_store_def)

lemma ex_new_URL:
  "new_URL ex_deno ''https://hub.example/callback'' = Inr (URL ''https://hub.example/callback'')"
  "new_URL ex_deno ''not a url'' = Inl (Error ''Invalid URL'')"
  by (simp_all add: ex_deno_def)


subsection \<open>The stream record as JSON\<close>

text \<open>
  C1, as amended. A POST whose first path segment is \<open>stream\<close> and whose \<open>createStream\<close>
  resolves is answered with status 200, the content type \<open>application/json\<close> and, as body,
  the encoded \<open>JSON.stringify\<close> of the stream record; a GET of \<open>/{adminID}/admin\<close> whose
  \<open>fetchStream\<close> resolves is answered with the same shape. The record's members, and so the
  keys of the JSON object, are \<open>admin\<close>, \<open>download\<close> and \<open>hub\<close>.
\<close>

theorem C1_stream_json_shape:
  "(path_seg req 1 = Some ''stream''
      \<and> createStream (action h) = Inr d
      \<longrightarrow> post h req =
            \<lparr>status = 200,
             body = Some (encodeText (action h) (JSON_stringify (UserStreamData_json d))),
             headers = Some [(''content-type'', ''application/json'')]\<rparr>)
   \<and> (path_seg req' 1 = Some a \<and> validateUUID (uuid h) a
      \<and> path_seg req' 2 = Some ''admin''
      \<and> fetchStream (action h) a = Inr d
      \<longrightarrow> get h req' =
            \<lparr>status = 200,
             body = Some (encodeText (action h) (JSON_stringify (UserStreamData_json d))),
             headers = Some [(''content-type'', ''application/json'')]\<rparr>)
   \<and> json_keys (UserStreamData_json d) = [''admin'', ''download'', ''hub'']"
  by (simp add: post_def post_try_eq get_def get_try_eq catch_404_def json_response_def
      json_headers_eq valid_path_def json_keys_def UserStreamData_json_def)

theorem C1_stream_json_shape_witness:
  \<open>path_seg (ex_request ''POST'' ''/stream'') 1 = Some ''stream''
   \<and> createStream (action ex_handler) = Inr ex_stream
   \<and> path_seg (ex_request ''GET'' ''/adminAAAAA/admin'') 1
       = Some ''adminAAAAA''
   \<and> validateUUID (uuid ex_handler) ''adminAAAAA''
   \<and> path_seg (ex_request ''GET'' ''/adminAAAAA/admin'') 2
       = Some ''admin''
   \<and> fetchStream (action ex_handler) ''adminAAAAA'' = Inr ex_stream
   \<and> post ex_handler (ex_request ''POST'' ''/stream'') =
       \<lparr>status = 200,
        body = Some (ex_encode
          ''{"admin":"adminAAAAA","download":"publicPPPP","hub":"hubHHHHHHH"}''),
        headers = Some [(''content-type'', ''application/json'')]\<rparr>
   \<and> get ex_handler (ex_request ''GET'' ''/adminAAAAA/admin'') =
       \<lparr>status = 200,
        body = Some (ex_encode
          ''{"admin":"adminAAAAA","download":"publicPPPP","hub":"hubHHHHHHH"}''),
        headers = Some [(''content-type'', ''application/json'')]\<rparr>\<close>
proof -
  have p1: "path_seg (ex_request ''POST'' ''/stream'') 1 = Some ''stream''"
    by (rule ex_path_segs)
  have c: "createStream (action ex_handler) = Inr ex_stream"
    by (rule ex_handler_parts)
  have g1: "path_seg (ex_request ''GET'' ''/adminAAAAA/admin'') 1 = Some ''adminAAAAA''"
    by (rule ex_path_segs)
  have g2: "path_seg (ex_request ''GET'' ''/adminAAAAA/admin'') 2 = Some ''admin''"
    by (rule ex_path_segs)
  have v: "validateUUID (uuid ex_handler) ''adminAAAAA''"
    by (simp add: ex_handler_parts ex_valid_ids)
  have f: "fetchStream (action ex_handler) ''adminAAAAA'' = Inr ex_stream"
    by (simp add: ex_handler_parts ex_stream_def)
  have e: "encodeText (action ex_handler) = ex_encode"
    by (rule ex_handler_parts)
  have j: \<open>JSON_stringify (UserStreamData_json ex_stream)
            = ''{"admin":"adminAAAAA","download":"publicPPPP","hub":"hubHHHHHHH"}''\<close>
    by (simp add: UserStreamData_json_def ex_stream_def JSON_quote_def JSON_escape_def)
  note T = C1_stream_json_shape
         [of "ex_request ''POST'' ''/stream''" ex_handler ex_stream
             "ex_request ''GET'' ''/adminAAAAA/admin''" "''adminAAAAA''"]
  have A: "post ex_handler (ex_request ''POST'' ''/stream'') =
            \<lparr>status = 200,
             body = Some (encodeText (action ex_handler)
                           (JSON_stringify (UserStreamData_json ex_stream))),
             headers = Some [(''content-type'', ''application/json'')]\<rparr>"
    by (rule T[THEN conjunct1, THEN mp, OF conjI[OF p1 c]])
  have B: "get ex_handler (ex_request ''GET'' ''/adminAAAAA/admin'') =
            \<lparr>status = 200,
             body = Some (encodeText (action ex_handler)
                           (JSON_stringify (UserStreamData_json ex_stream))),
             headers = Some [(''content-type'', ''application/json'')]\<rparr>"
    by (rule T[THEN conjunct2, THEN conjunct1, THEN mp,
               OF conjI[OF g1 conjI[OF v conjI[OF g2 f]]]])
  have AB: \<open>post ex_handler (ex_request ''POST'' ''/stream'') =
       \<lparr>status = 200,
        body = Some (ex_encode
          ''{"admin":"adminAAAAA","download":"publicPPPP","hub":"hubHHHHHHH"}''),
        headers = Some [(''content-type'', ''application/json'')]\<rparr>
   \<and> get ex_handler (ex_request ''GET'' ''/adminAAAAA/admin'') =
       \<lparr>status = 200,
        body = Some (ex_encode
          ''{"admin":"adminAAAAA","download":"publicPPPP","hub":"hubHHHHHHH"}''),
        headers = Some [(''content-type'', ''application/json'')]\<rparr>\<close>
    unfolding A B e j by (rule conjI; rule refl)
  show ?thesis
    by (intro conjI p1 c g1 v g2 f AB[THEN conjunct1] AB[THEN conjunct2])
qed

text \<open>
  C1 as stated fails: the object has no key \<open>public\<close>. The stream with the identifiers
  \<open>adminAAAAA\<close>, \<open>publicPPPP\<close> and \<open>hubHHHHHHH\<close> is answered with the key \<open>download\<close>
  for its public identifier.
\<close>

theorem C1_public_key_counterexample:
  \<open>body (post ex_handler (ex_request ''POST'' ''/stream''))
     = Some (ex_encode ''{"admin":"adminAAAAA","download":"publicPPPP","hub":"hubHHHHHHH"}'')
   \<and> body (post ex_handler (ex_request ''POST'' ''/stream''))
     \<noteq> Some (ex_encode ''{"admin":"adminAAAAA","public":"publicPPPP","hub":"hubHHHHHHH"}'')
   \<and> set (json_keys (UserStreamData_json ex_stream)) \<noteq> {''admin'', ''public'', ''hub''}\<close>
proof -
  have b: \<open>body (post ex_handler (ex_request ''POST'' ''/stream''))
     = Some (ex_encode ''{"admin":"adminAAAAA","download":"publicPPPP","hub":"hubHHHHHHH"}'')\<close>
    unfolding post_def post_try_eq ex_path_segs
    by (simp add: catch_404_def json_response_def ex_handler_parts
        UserStreamData_json_def ex_stream_def JSON_quote_def JSON_escape_def)
  have n: \<open>ex_encode ''{"admin":"adminAAAAA","download":"publicPPPP","hub":"hubHHHHHHH"}''
     \<noteq> ex_encode ''{"admin":"adminAAAAA","public":"publicPPPP","hub":"hubHHHHHHH"}''\<close>
    by (simp add: ex_encode_def)
  have k: "set (json_keys (UserStreamData_json ex_stream)) \<noteq> {''admin'', ''public'', ''hub''}"
  proof -
    have "''download'' \<in> set (json_keys (UserStreamData_json ex_stream))"
      by (simp add: json_keys_def UserStreamData_json_def)
    moreover have "''download'' \<notin> {''admin'', ''public'', ''hub''}"
      by simp
    ultimately show ?thesis by metis
  qed
  have n': \<open>body (post ex_handler (ex_request ''POST'' ''/stream''))
     \<noteq> Some (ex_encode ''{"admin":"adminAAAAA","public":"publicPPPP","hub":"hubHHHHHHH"}'')\<close>
    unfolding b using n by (rule contrapos_nn) (rule option.inject[THEN iffD1])
  show ?thesis by (intro conjI b n' k)
qed


subsection \<open>Hub operations on an unknown stream\<close>

lemma with_hubs_parts:
  "uuid (with_hubs st hid h) = uuid h"
  "data (with_hubs st hid h) = data h"
  "deno (with_hubs st hid h) = deno h"
  "encodeText (action (with_hubs st hid h)) = encodeText (action h)"
  "decodeText (action (with_hubs st hid h)) = decodeText (action h)"
  "connectStreamToHub (action (with_hubs st hid h))
     = (\<lambda>hubURL adminID. fst (hub_connect st hid hubURL adminID))"
  "disconnectStreamFromHub (action (with_hubs st hid h))
     = (\<lambda>hubID adminID. fst (hub_disconnect st hubID adminID))"
  "connectedHubs (action (with_hubs st hid h)) = hub_list st"
  by (simp_all add: with_hubs_def)

lemma valid_path_with_hubs: "valid_path (with_hubs st hid h) seg = valid_path h seg"
  by (cases seg) (simp_all add: valid_path_def with_hubs_parts)

text \<open>
  C2, as amended. For an admin identifier \<open>a\<close> that does not resolve to a stream, the
  three operations of the hub manager fail with \<open>UnknownStream\<close>. With the manager behind
  the handler and \<open>a\<close> passing the validator, GET \<open>/a/hubs\<close> and DELETE \<open>/a/admin\<close> (with a
  readable, non-empty body) are answered with status 404 and the error's message as body.
  PUT \<open>/a/admin\<close> (with a readable, non-empty body that is a URL) is answered with status 200
  and no body: its call of \<open>connectStreamToHub\<close> is not awaited, and the rejection of that
  promise is not part of the response.
\<close>

theorem C2_unknown_stream_responses:
  assumes "st a = None" and "validateUUID (uuid h) a"
  shows "hub_list st a = Inl UnknownStream
       \<and> fst (hub_connect st hid u a) = Inl UnknownStream
       \<and> fst (hub_disconnect st x a) = Inl UnknownStream
       \<and> (path_seg rg 1 = Some a \<and> path_seg rg 2 = Some ''hubs'' \<longrightarrow>
            get (with_hubs st hid h) rg =
              \<lparr>status = 404, body = Some (encodeText (action h) (message UnknownStream)),
               headers = None\<rparr>)
       \<and> (path_seg rd 1 = Some a \<and> path_seg rd 2 = Some ''admin'' \<and> \<not> no_data rd
            \<and> req_body rd = Inr bs \<longrightarrow>
            delete (with_hubs st hid h) rd =
              \<lparr>status = 404, body = Some (encodeText (action h) (message UnknownStream)),
               headers = None\<rparr>)
       \<and> (path_seg rp 1 = Some a \<and> path_seg rp 2 = Some ''admin'' \<and> \<not> no_data rp
            \<and> req_body rp = Inr bs \<and> new_URL (deno h) (decodeText (action h) bs) = Inr u \<longrightarrow>
            put (with_hubs st hid h) rp = \<lparr>status = 200, body = None, headers = None\<rparr>
            \<and> snd (put_run (with_hubs st hid h) rp) = Some (Inl UnknownStream))"
proof -
  have l: "hub_list st a = Inl UnknownStream"
    using assms(1) by (simp add: hub_list_def)
  have c: "fst (hub_connect st hid u a) = Inl UnknownStream"
    using assms(1) by (simp add: hub_connect_def)
  have d: "fst (hub_disconnect st x a) = Inl UnknownStream" for x
    using assms(1) by (simp add: hub_disconnect_def)
  have g: "path_seg rg 1 = Some a \<and> path_seg rg 2 = Some ''hubs'' \<longrightarrow>
            get (with_hubs st hid h) rg =
              \<lparr>status = 404, body = Some (encodeText (action h) (message UnknownStream)),
               headers = None\<rparr>"
    using assms(2) l
    by (simp add: get_def get_try_eq catch_404_def valid_path_with_hubs valid_path_Some
        with_hubs_parts)
  have de: "path_seg rd 1 = Some a \<and> path_seg rd 2 = Some ''admin'' \<and> \<not> no_data rd
            \<and> req_body rd = Inr bs \<longrightarrow>
            delete (with_hubs st hid h) rd =
              \<lparr>status = 404, body = Some (encodeText (action h) (message UnknownStream)),
               headers = None\<rparr>"
    using assms(2) d
    by (simp add: delete_def delete_try_eq catch_404_def valid_path_with_hubs valid_path_Some
        with_hubs_parts)
  have p: "path_seg rp 1 = Some a \<and> path_seg rp 2 = Some ''admin'' \<and> \<not> no_data rp
            \<and> req_body rp = Inr bs \<and> new_URL (deno h) (decodeText (action h) bs) = Inr u \<longrightarrow>
            put (with_hubs st hid h) rp = \<lparr>status = 200, body = None, headers = None\<rparr>
            \<and> snd (put_run (with_hubs st hid h) rp) = Some (Inl UnknownStream)"
    using assms(2) c
    by (simp add: put_def put_run_eq catch_404_def valid_path_with_hubs valid_path_Some
        with_hubs_parts)
  show ?thesis
    by (intro conjI l c d g de p)
qed

theorem C2_unknown_stream_responses_witness:
  "ex_store ''adminBBBBB'' = None
   \<and> get ex_handler (ex_request ''GET'' ''/adminBBBBB/hubs'') =
       \<lparr>status = 404, body = Some (ex_encode ''UnknownStream''), headers = None\<rparr>
   \<and> delete ex_handler (ex_request_body ''DELETE'' ''/adminBBBBB/admin'' ''hub1'') =
       \<lparr>status = 404, body = Some (ex_encode ''UnknownStream''), headers = None\<rparr>
   \<and> put ex_handler
       (ex_request_body ''PUT'' ''/adminBBBBB/admin'' ''https://hub.example/callback'') =
       \<lparr>status = 200, body = None, headers = None\<rparr>"
proof -
  define base where
    "base = \<lparr>action = ex_action, data = \<lparr>getSegmentList = ex_getSegmentList\<rparr>,
             uuid = \<lparr>validateUUID = ex_validateUUID\<rparr>, deno = ex_deno\<rparr>"
  have h: "with_hubs ex_store href base = ex_handler"
    by (simp add: base_def ex_handler_def)
  have v: "validateUUID (uuid base) ''adminBBBBB''"
    by (simp add: base_def ex_valid_ids)
  have enc: "encodeText (action base) = ex_encode"
    by (simp add: base_def ex_action_def)
  have url: "new_URL (deno base)
               (decodeText (action base) (ex_encode ''https://hub.example/callback''))
             = Inr (URL ''https://hub.example/callback'')"
    by (simp add: base_def ex_action_def ex_decode_encode ex_new_URL)
  note T = C2_unknown_stream_responses
             [where st = ex_store and a = "''adminBBBBB''" and h = base and hid = href,
              OF ex_store_facts(1) v, unfolded h]
  note rest = T[THEN conjunct2, THEN conjunct2, THEN conjunct2]
  have G: "get ex_handler (ex_request ''GET'' ''/adminBBBBB/hubs'') =
       \<lparr>status = 404, body = Some (encodeText (action base) (message UnknownStream)),
        headers = None\<rparr>"
    by (rule rest[THEN conjunct1, THEN mp, OF conjI[OF ex_path_segs(4) ex_path_segs(5)]])
  have D: "delete ex_handler (ex_request_body ''DELETE'' ''/adminBBBBB/admin'' ''hub1'') =
       \<lparr>status = 404, body = Some (encodeText (action base) (message UnknownStream)),
        headers = None\<rparr>"
    by (rule rest[THEN conjunct2, THEN conjunct1, THEN mp,
          OF conjI[OF ex_path_segs(13) conjI[OF ex_path_segs(14)
               conjI[OF ex_request_body_facts(1) ex_request_body_facts(2)]]]])
  have P: "put ex_handler
       (ex_request_body ''PUT'' ''/adminBBBBB/admin'' ''https://hub.example/callback'') =
       \<lparr>status = 200, body = None, headers = None\<rparr>"
    by (rule rest[THEN conjunct2, THEN conjunct2, THEN mp,
          OF conjI[OF ex_path_segs(13) conjI[OF ex_path_segs(14)
               conjI[OF ex_request_body_facts(1) conjI[OF ex_request_body_facts(2) url]]]],
          THEN conjunct1])
  show ?thesis
    using ex_store_facts(1) G D P
    by (simp only: enc UnknownStream_def js_error.sel simp_thms)
qed

text \<open>
  C2 as stated fails for PUT: \<open>adminBBBBB\<close> resolves to no stream, \<open>connect\<close> fails with
  \<open>UnknownStream\<close>, and the PUT request receives status 200 with an empty body.
\<close>

theorem C2_put_counterexample:
  "fst (hub_connect ex_store href (URL ''https://hub.example/callback'') ''adminBBBBB'')
     = Inl UnknownStream
   \<and> handle ex_handler
       (ex_request_body ''PUT'' ''/adminBBBBB/admin'' ''https://hub.example/callback'')
     = \<lparr>status = 200, body = None,
        headers = Some [(''access-control-allow-origin'', ''*''),
                        (''access-control-allow-method'', ''GET''),
                        (''access-control-allow-headers'',
                         ''Origin, X-Requested-With, Content-Type, Accept, Range'')]\<rparr>
   \<and> status (handle ex_handler
       (ex_request_body ''PUT'' ''/adminBBBBB/admin'' ''https://hub.example/callback''))
     \<noteq> 404"
proof -
  have c: "fst (hub_connect ex_store href (URL ''https://hub.example/callback'') ''adminBBBBB'')
     = Inl UnknownStream"
    by (simp add: hub_connect_def ex_store_facts)
  have run: "fst (put_run ex_handler
       (ex_request_body ''PUT'' ''/adminBBBBB/admin'' ''https://hub.example/callback''))
     = Inr \<lparr>status = 200, body = None, headers = None\<rparr>"
    unfolding put_run_eq ex_path_segs
    by (simp add: valid_path_Some ex_valid_ids ex_request_body_facts ex_handler_parts
        ex_decode_encode ex_new_URL)
  have m: "req_method
       (ex_request_body ''PUT'' ''/adminBBBBB/admin'' ''https://hub.example/callback'') = ''PUT''"
    by (simp add: ex_request_body_def)
  have hd: "handle ex_handler
       (ex_request_body ''PUT'' ''/adminBBBBB/admin'' ''https://hub.example/callback'')
     = \<lparr>status = 200, body = None,
        headers = Some [(''access-control-allow-origin'', ''*''),
                        (''access-control-allow-method'', ''GET''),
                        (''access-control-allow-headers'',
                         ''Origin, X-Requested-With, Content-Type, Accept, Range'')]\<rparr>"
    by (simp add: handle_def selectMethod_def m put_def run catch_404_def setCORS_def
        Headers_append_def Headers_new_def)
  show ?thesis
    by (simp add: c hd)
qed


subsection \<open>Segment ingestion\<close>

lemma process_no_content_type:
  assumes "Headers_get (req_headers req) ''content-type'' = None
           \<or> Headers_get (req_headers req) ''content-type'' = Some []"
  shows "process u req a = (Inl (Error ''Missing content type header\<newline>''), [])"
  using assms by (auto simp add: process_def)

lemma process_unresolved:
  assumes "Headers_get (req_headers req) ''content-type'' = Some ct" and "ct \<noteq> []"
    and "getStreamPublicIDFromStreamAdminID (upload_data u) a = Inl e"
  shows "process u req a = (Inl e, [GetStreamPublicID a])"
  using assms by (simp add: process_def)

lemma process_form_error:
  assumes "Headers_get (req_headers req) ''content-type'' = Some ct" and "ct \<noteq> []"
    and "getStreamPublicIDFromStreamAdminID (upload_data u) a = Inr p"
    and "readForm (std u) req (substr ct (indexOf ct CHR ''='' + 1)) = Inl e"
  shows "process u req a
           = (Inl e, [GetStreamPublicID a, ReadForm (substr ct (indexOf ct CHR ''='' + 1))])"
  using assms by (simp add: process_def)

lemma process_form:
  assumes "Headers_get (req_headers req) ''content-type'' = Some ct" and "ct \<noteq> []"
    and "getStreamPublicIDFromStreamAdminID (upload_data u) a = Inr p"
    and "readForm (std u) req (substr ct (indexOf ct CHR ''='' + 1)) = Inr form"
  shows "process u req a =
           (fst (store_segment u p (file_field form ''audio'')),
            [GetStreamPublicID a, ReadForm (substr ct (indexOf ct CHR ''='' + 1))]
            @ snd (store_segment u p (file_field form ''audio'')))"
  using assms by (simp add: process_def Let_def)


lemma store_segment_written:
  assumes "content f = Some bs" and "random_uuid (random u) = Inr sid"
    and "deno_open (std u)
           (join (std u) [rootDir (core u), ''audio'', join (std u) [p, sid @ ''.opus'']])
         = Inr rid"
    and "deno_write (std u) rid bs = Inr n"
  shows "store_segment u p (Some (OneFile f)) =
           (Inr (),
            [RandomUUID,
             DenoOpen (join (std u) [rootDir (core u), ''audio'',
                                     join (std u) [p, sid @ ''.opus'']]),
             DenoWrite rid bs, DenoClose rid]
            @ register_segment u sid p (join (std u) [p, sid @ ''.opus'']))"
  using assms by (simp add: store_segment_def Let_def)

lemma ReadForm_notin_register: "ReadForm b \<notin> set (register_segment u sid p loc)"
  by (simp add: register_segment_def split: sum.splits)

lemma ReadForm_notin_store: "ReadForm b \<notin> set (snd (store_segment u p formFile))"
  by (simp add: store_segment_def Let_def ReadForm_notin_register
      split: option.splits form_files.splits sum.splits)

lemma indexOf_absent: "c \<notin> set s \<Longrightarrow> indexOf s c = -1"
  by (induction s) (auto simp add: Let_def)

lemma substr_0: "substr s 0 = s"
  by (simp add: substr_def)

text \<open>The concrete reader on the concrete bodies.\<close>

lemma ex_encode_Nil: "ex_encode [] = []"
  by (simp add: ex_encode_def)

lemma ex_content_type:
  "Headers_get (req_headers (ex_upload_request url0 (Some t) bs)) ''content-type'' = Some t"
  "Headers_get (req_headers (ex_upload_request url0 None bs)) ''content-type'' = None"
  "Headers_get (req_headers (ex_request m url0)) ''content-type'' = None"
  by (simp_all add: ex_upload_request_def ex_request_def Headers_get_def Headers_values_def)

lemma ex_boundary:
  "substr ''multipart/form-data; boundary=xyz''
     (indexOf ''multipart/form-data; boundary=xyz'' CHR ''='' + 1) = ''xyz''"
  "substr ''text/plain'' (indexOf ''text/plain'' CHR ''='' + 1) = ''text/plain''"
  by (simp_all add: substr_def)

lemma ex_readForm_no_part:
  "ex_readForm (ex_upload_request url0 t (ex_body ''xyz'' [])) ''xyz'' = Inr (form_of [])"
  by (simp add: ex_readForm_def ex_upload_request_def ex_body_def ex_decode_encode CRLF_def
      strip_cr_def)

lemma ex_readForm_one_part:
  "ex_readForm (ex_upload_request url0 t (ex_body ''xyz'' [(''audio'', ''a.opus'', ''OggS'')]))
     ''xyz''
   = Inr (form_of [(''audio'',
            \<lparr>filename = ''a.opus'', filetype = ''audio/ogg'', filesize = 4,
             content = Some (ex_encode ''OggS''), tempfile = None\<rparr>)])"
  by (simp add: ex_readForm_def ex_upload_request_def ex_body_def ex_decode_encode CRLF_def
      strip_cr_def part_file_def eval_nat_numeral)

lemma ex_readForm_empty_part:
  "ex_readForm (ex_upload_request url0 t (ex_body ''xyz'' [(''audio'', ''a.opus'', [])]))
     ''xyz''
   = Inr (form_of [(''audio'',
            \<lparr>filename = ''a.opus'', filetype = ''audio/ogg'', filesize = 0,
             content = Some [], tempfile = None\<rparr>)])"
  by (simp add: ex_readForm_def ex_upload_request_def ex_body_def ex_decode_encode CRLF_def
      strip_cr_def part_file_def ex_encode_Nil)

lemma ex_readForm_two_parts:
  "ex_readForm
     (ex_upload_request url0 t
        (ex_body ''xyz'' [(''audio'', ''a.opus'', ''OggS''), (''audio'', ''b.opus'', ''OggS'')]))
     ''xyz''
   = Inr (form_of [(''audio'',
            \<lparr>filename = ''a.opus'', filetype = ''audio/ogg'', filesize = 4,
             content = Some (ex_encode ''OggS''), tempfile = None\<rparr>),
           (''audio'',
            \<lparr>filename = ''b.opus'', filetype = ''audio/ogg'', filesize = 4,
             content = Some (ex_encode ''OggS''), tempfile = None\<rparr>)])"
  by (simp add: ex_readForm_def ex_upload_request_def ex_body_def ex_decode_encode CRLF_def
      strip_cr_def part_file_def eval_nat_numeral)

lemma ex_readForm_plain:
  "ex_readForm
     (ex_upload_request url0 t (ex_body ''text/plain'' [(''audio'', ''a.opus'', ''OggS'')]))
     ''text/plain''
   = Inr (form_of [(''audio'',
            \<lparr>filename = ''a.opus'', filetype = ''audio/ogg'', filesize = 4,
             content = Some (ex_encode ''OggS''), tempfile = None\<rparr>)])"
  by (simp add: ex_readForm_def ex_upload_request_def ex_body_def ex_decode_encode CRLF_def
      strip_cr_def part_file_def eval_nat_numeral)

lemma form_of_audio:
  "file_field (form_of []) ''audio'' = None"
  "file_field (form_of [(''audio'', f)]) ''audio'' = Some (OneFile f)"
  "file_field (form_of [(''audio'', f), (''audio'', g)]) ''audio'' = Some (ManyFiles [f, g])"
  by (simp_all add: form_of_def)

lemma ex_upload_parts:
  "std ex_upload = ex_deno" "std ex_upload_refusing = ex_deno"
  "core ex_upload = \<lparr>rootDir = ''/srv/sludge'', fileURL = URL ''https://files.example/audio/''\<rparr>"
  "core ex_upload_refusing = core ex_upload"
  "random_uuid (random ex_upload) = Inr ''segment001''"
  "random_uuid (random ex_upload_refusing) = Inr ''segment001''"
  "getStreamPublicIDFromStreamAdminID (upload_data ex_upload) ''adminAAAAA'' = Inr ''publicPPPP''"
  "getStreamPublicIDFromStreamAdminID (upload_data ex_upload_refusing) ''adminAAAAA''
     = Inr ''publicPPPP''"
  "getStreamPublicIDFromStreamAdminID (upload_data ex_upload) ''adminBBBBB'' = Inl UnknownStream"
  "addSegmentURL (upload_data ex_upload) = (\<lambda>segID publicID loc. Inr ())"
  "addSegmentURL (upload_data ex_upload_refusing)
     = (\<lambda>segID publicID loc. Inl (Error ''store is read-only''))"
  by (simp_all add: ex_upload_def ex_upload_refusing_def)

lemma ex_deno_parts:
  "readForm ex_deno = ex_readForm"
  "join ex_deno [''publicPPPP'', ''segment001'' @ ''.opus''] = ''publicPPPP/segment001.opus''"
  "join ex_deno [''/srv/sludge'', ''audio'', ''publicPPPP/segment001.opus'']
     = ''/srv/sludge/audio/publicPPPP/segment001.opus''"
  "deno_open ex_deno target = Inr 3"
  "deno_write ex_deno rid bs = Inr (length bs)"
  "new_URL_base ex_deno ''publicPPPP/segment001.opus'' (URL ''https://files.example/audio/'')
     = Inr (URL ''https://files.example/audio/publicPPPP/segment001.opus'')"
  by (simp_all add: ex_deno_def)

lemma ex_post_facts:
  "Headers_get (req_headers ex_post_audio) ''content-type''
     = Some ''multipart/form-data; boundary=xyz''"
  "Headers_get (req_headers ex_post_empty_audio) ''content-type''
     = Some ''multipart/form-data; boundary=xyz''"
  "Headers_get (req_headers ex_post_no_audio) ''content-type''
     = Some ''multipart/form-data; boundary=xyz''"
  "Headers_get (req_headers ex_post_two_audio) ''content-type''
     = Some ''multipart/form-data; boundary=xyz''"
  "Headers_get (req_headers ex_post_unknown) ''content-type''
     = Some ''multipart/form-data; boundary=xyz''"
  "Headers_get (req_headers ex_post_plain) ''content-type'' = Some ''text/plain''"
  "path_seg ex_post_audio 1 = Some ''adminAAAAA''"
  "path_seg ex_post_plain 1 = Some ''adminAAAAA''"
  by (simp_all add: ex_post_audio_def ex_post_empty_audio_def ex_post_no_audio_def
      ex_post_two_audio_def ex_post_unknown_def ex_post_plain_def
      path_seg_def path_at_def ex_upload_request_def Headers_get_def Headers_values_def)

lemma ex_post_forms:
  "ex_readForm ex_post_audio ''xyz''
   = Inr (form_of [(''audio'',
            \<lparr>filename = ''a.opus'', filetype = ''audio/ogg'', filesize = 4,
             content = Some (ex_encode ''OggS''), tempfile = None\<rparr>)])"
  "ex_readForm ex_post_empty_audio ''xyz''
   = Inr (form_of [(''audio'',
            \<lparr>filename = ''a.opus'', filetype = ''audio/ogg'', filesize = 0,
             content = Some [], tempfile = None\<rparr>)])"
  "ex_readForm ex_post_no_audio ''xyz'' = Inr (form_of [])"
  "ex_readForm ex_post_two_audio ''xyz''
   = Inr (form_of [(''audio'',
            \<lparr>filename = ''a.opus'', filetype = ''audio/ogg'', filesize = 4,
             content = Some (ex_encode ''OggS''), tempfile = None\<rparr>),
           (''audio'',
            \<lparr>filename = ''b.opus'', filetype = ''audio/ogg'', filesize = 4,
             content = Some (ex_encode ''OggS''), tempfile = None\<rparr>)])"
  "ex_readForm ex_post_plain ''text/plain''
   = Inr (form_of [(''audio'',
            \<lparr>filename = ''a.opus'', filetype = ''audio/ogg'', filesize = 4,
             content = Some (ex_encode ''OggS''), tempfile = None\<rparr>)])"
  unfolding ex_post_audio_def ex_post_empty_audio_def ex_post_no_audio_def
    ex_post_two_audio_def ex_post_plain_def
  by (rule ex_readForm_one_part ex_readForm_empty_part ex_readForm_no_part
      ex_readForm_two_parts ex_readForm_plain)+

text \<open>
  C3. When the content type is present, the admin identifier resolves, the form holds one
  \<open>audio\<close> file with content, and identifier, file and write succeed, a failing
  \<open>addSegmentURL\<close> does not make \<open>process\<close> fail: it returns normally after the write, the
  registration attempt and one \<open>console.error\<close>. A POST handler whose
  \<open>processUploadFormData\<close> is this \<open>process\<close> then answers 200 with \<open>Success\<close>.
\<close>

theorem C3_registration_failure_swallowed:
  assumes "Headers_get (req_headers req) ''content-type'' = Some ct" and "ct \<noteq> []"
    and "getStreamPublicIDFromStreamAdminID (upload_data u) a = Inr p"
    and "readForm (std u) req (substr ct (indexOf ct CHR ''='' + 1)) = Inr form"
    and "file_field form ''audio'' = Some (OneFile f)" and "content f = Some bs"
    and "random_uuid (random u) = Inr sid"
    and "deno_open (std u)
           (join (std u) [rootDir (core u), ''audio'', join (std u) [p, sid @ ''.opus'']])
         = Inr rid"
    and "deno_write (std u) rid bs = Inr n"
    and "new_URL_base (std u) (join (std u) [p, sid @ ''.opus'']) (fileURL (core u)) = Inr loc"
    and "addSegmentURL (upload_data u) sid p loc = Inl e"
  shows "process u req a =
           (Inr (),
            [GetStreamPublicID a, ReadForm (substr ct (indexOf ct CHR ''='' + 1)), RandomUUID,
             DenoOpen (join (std u) [rootDir (core u), ''audio'',
                                     join (std u) [p, sid @ ''.opus'']]),
             DenoWrite rid bs, DenoClose rid, AddSegmentURL sid p loc,
             ConsoleError (''Failed to create segment entry '' @ sid @ '' for '' @ p)])
       \<and> (processUploadFormData (action h) = (\<lambda>r i. fst (process u r i))
            \<and> path_seg req 1 = Some a \<and> a \<noteq> ''stream'' \<and> validateUUID (uuid h) a \<longrightarrow>
            post h req =
              \<lparr>status = 200, body = Some (encodeText (action h) ''Success\<newline>''),
               headers = None\<rparr>)"
proof -
  have reg: "register_segment u sid p (join (std u) [p, sid @ ''.opus''])
               = [AddSegmentURL sid p loc,
                  ConsoleError (''Failed to create segment entry '' @ sid @ '' for '' @ p)]"
    using assms(10,11) by (simp add: register_segment_def register_failed_def)
  have pr: "process u req a =
           (Inr (),
            [GetStreamPublicID a, ReadForm (substr ct (indexOf ct CHR ''='' + 1)), RandomUUID,
             DenoOpen (join (std u) [rootDir (core u), ''audio'',
                                     join (std u) [p, sid @ ''.opus'']]),
             DenoWrite rid bs, DenoClose rid, AddSegmentURL sid p loc,
             ConsoleError (''Failed to create segment entry '' @ sid @ '' for '' @ p)])"
    by (simp add: process_form[OF assms(1-4)] assms(5)
        store_segment_written[OF assms(6-9)] reg)
  have po: "processUploadFormData (action h) = (\<lambda>r i. fst (process u r i))
            \<and> path_seg req 1 = Some a \<and> a \<noteq> ''stream'' \<and> validateUUID (uuid h) a \<longrightarrow>
            post h req =
              \<lparr>status = 200, body = Some (encodeText (action h) ''Success\<newline>''),
               headers = None\<rparr>"
    by (simp add: post_def post_try_eq catch_404_def valid_path_Some pr)
  show ?thesis
    by (intro conjI pr po)
qed

theorem C3_registration_failure_swallowed_witness:
  "addSegmentURL (upload_data ex_upload_refusing) ''segment001'' ''publicPPPP''
       (URL ''https://files.example/audio/publicPPPP/segment001.opus'')
     = Inl (Error ''store is read-only'')
   \<and> process ex_upload_refusing ex_post_audio ''adminAAAAA'' =
       (Inr (),
        [GetStreamPublicID ''adminAAAAA'', ReadForm ''xyz'', RandomUUID,
         DenoOpen ''/srv/sludge/audio/publicPPPP/segment001.opus'',
         DenoWrite 3 (ex_encode ''OggS''), DenoClose 3,
         AddSegmentURL ''segment001'' ''publicPPPP''
           (URL ''https://files.example/audio/publicPPPP/segment001.opus''),
         ConsoleError ''Failed to create segment entry segment001 for publicPPPP''])
   \<and> post ex_handler_refusing ex_post_audio =
       \<lparr>status = 200, body = Some (ex_encode ''Success\<newline>''), headers = None\<rparr>"
proof -
  let ?f = "\<lparr>filename = ''a.opus'', filetype = ''audio/ogg'', filesize = 4,
             content = Some (ex_encode ''OggS''), tempfile = None\<rparr>"
  have a2: "''multipart/form-data; boundary=xyz'' \<noteq> []"
    by simp
  have a4: "readForm (std ex_upload_refusing) ex_post_audio
              (substr ''multipart/form-data; boundary=xyz''
                 (indexOf ''multipart/form-data; boundary=xyz'' CHR ''='' + 1))
            = Inr (form_of [(''audio'', ?f)])"
    unfolding ex_boundary by (simp add: ex_upload_parts ex_deno_parts ex_post_forms)
  have a5: "file_field (form_of [(''audio'', ?f)]) ''audio'' = Some (OneFile ?f)"
    by (rule form_of_audio)
  have a6: "content ?f = Some (ex_encode ''OggS'')"
    by simp
  have a8: "deno_open (std ex_upload_refusing)
              (join (std ex_upload_refusing)
                 [rootDir (core ex_upload_refusing), ''audio'',
                  join (std ex_upload_refusing) [''publicPPPP'', ''segment001'' @ ''.opus'']])
            = Inr 3"
    by (simp add: ex_upload_parts ex_deno_parts)
  have a9: "deno_write (std ex_upload_refusing) 3 (ex_encode ''OggS'')
              = Inr (length (ex_encode ''OggS''))"
    by (simp add: ex_upload_parts ex_deno_parts)
  have a10: "new_URL_base (std ex_upload_refusing)
               (join (std ex_upload_refusing) [''publicPPPP'', ''segment001'' @ ''.opus''])
               (fileURL (core ex_upload_refusing))
             = Inr (URL ''https://files.example/audio/publicPPPP/segment001.opus'')"
    unfolding ex_upload_parts ex_deno_parts by (simp add: ex_deno_parts)
  have a11: "addSegmentURL (upload_data ex_upload_refusing) ''segment001'' ''publicPPPP''
               (URL ''https://files.example/audio/publicPPPP/segment001.opus'')
             = Inl (Error ''store is read-only'')"
    by (simp add: ex_upload_parts)
  note T = C3_registration_failure_swallowed
             [where h = ex_handler_refusing,
              OF ex_post_facts(1) a2 ex_upload_parts(8) a4 a5 a6 ex_upload_parts(6)
                 a8 a9 a10 a11]
  have P: "process ex_upload_refusing ex_post_audio ''adminAAAAA'' =
       (Inr (),
        [GetStreamPublicID ''adminAAAAA'', ReadForm ''xyz'', RandomUUID,
         DenoOpen ''/srv/sludge/audio/publicPPPP/segment001.opus'',
         DenoWrite 3 (ex_encode ''OggS''), DenoClose 3,
         AddSegmentURL ''segment001'' ''publicPPPP''
           (URL ''https://files.example/audio/publicPPPP/segment001.opus''),
         ConsoleError ''Failed to create segment entry segment001 for publicPPPP''])"
    using T[THEN conjunct1]
    unfolding ex_boundary ex_upload_parts ex_deno_parts by (simp add: ex_deno_parts)
  have w: "processUploadFormData (action ex_handler_refusing)
             = (\<lambda>r i. fst (process ex_upload_refusing r i))"
    by (simp add: ex_handler_refusing_def)
  have v: "validateUUID (uuid ex_handler_refusing) ''adminAAAAA''"
    by (simp add: ex_handler_refusing_def ex_handler_parts ex_valid_ids)
  have ns: "''adminAAAAA'' \<noteq> ''stream''"
    by simp
  have enc: "encodeText (action ex_handler_refusing) = ex_encode"
    by (simp add: ex_handler_refusing_def ex_handler_parts)
  have Q: "post ex_handler_refusing ex_post_audio =
       \<lparr>status = 200, body = Some (ex_encode ''Success\<newline>''), headers = None\<rparr>"
    using T[THEN conjunct2, THEN mp, OF conjI[OF w conjI[OF ex_post_facts(7) conjI[OF ns v]]]]
    by (simp only: enc)
  show ?thesis
    by (intro conjI a11 P Q)
qed


text \<open>
  C4. When the admin identifier does not resolve, \<open>process\<close> fails and has not read the
  form: with a content type it has done nothing but the resolution, and fails with the
  resolution's error. Whenever the form is read, the resolution was the step before it,
  and it had succeeded.
\<close>

theorem C4_resolve_before_form:
  "(getStreamPublicIDFromStreamAdminID (upload_data u) a = Inl e \<longrightarrow>
      (\<exists>e'. fst (process u req a) = Inl e')
      \<and> (\<forall>b. ReadForm b \<notin> set (snd (process u req a)))
      \<and> (Headers_get (req_headers req) ''content-type'' = Some ct \<and> ct \<noteq> [] \<longrightarrow>
           process u req a = (Inl e, [GetStreamPublicID a])))
   \<and> (ReadForm b \<in> set (snd (process u req a)) \<longrightarrow>
      (\<exists>p t. getStreamPublicIDFromStreamAdminID (upload_data u) a = Inr p
         \<and> snd (process u req a) = GetStreamPublicID a # ReadForm b # t))"
proof -
  have fails: "getStreamPublicIDFromStreamAdminID (upload_data u) a = Inl e \<longrightarrow>
      (\<exists>e'. fst (process u req a) = Inl e')
      \<and> (\<forall>b. ReadForm b \<notin> set (snd (process u req a)))
      \<and> (Headers_get (req_headers req) ''content-type'' = Some ct \<and> ct \<noteq> [] \<longrightarrow>
           process u req a = (Inl e, [GetStreamPublicID a]))"
    by (auto simp add: process_def split: option.splits)
  have before: "ReadForm b \<in> set (snd (process u req a)) \<longrightarrow>
      (\<exists>p t. getStreamPublicIDFromStreamAdminID (upload_data u) a = Inr p
         \<and> snd (process u req a) = GetStreamPublicID a # ReadForm b # t)"
    using ReadForm_notin_store[of b u]
    by (auto simp add: process_def Let_def split: option.splits if_splits sum.splits)
  show ?thesis
    by (intro conjI fails before)
qed

theorem C4_resolve_before_form_witness:
  "getStreamPublicIDFromStreamAdminID (upload_data ex_upload) ''adminBBBBB'' = Inl UnknownStream
   \<and> process ex_upload ex_post_unknown ''adminBBBBB''
       = (Inl UnknownStream, [GetStreamPublicID ''adminBBBBB''])
   \<and> ReadForm ''xyz'' \<in> set (snd (process ex_upload ex_post_no_audio ''adminAAAAA''))
   \<and> (\<exists>t. snd (process ex_upload ex_post_no_audio ''adminAAAAA'')
          = GetStreamPublicID ''adminAAAAA'' # ReadForm ''xyz'' # t)"
proof -
  have ne: "''multipart/form-data; boundary=xyz'' \<noteq> []"
    by simp
  have A: "process ex_upload ex_post_unknown ''adminBBBBB''
       = (Inl UnknownStream, [GetStreamPublicID ''adminBBBBB''])"
    by (rule C4_resolve_before_form[THEN conjunct1, THEN mp, OF ex_upload_parts(9),
          THEN conjunct2, THEN conjunct2, THEN mp, OF conjI[OF ex_post_facts(5) ne]])
  have rf: "readForm (std ex_upload) ex_post_no_audio
              (substr ''multipart/form-data; boundary=xyz''
                 (indexOf ''multipart/form-data; boundary=xyz'' CHR ''='' + 1))
            = Inr (form_of [])"
    unfolding ex_boundary by (simp add: ex_upload_parts ex_deno_parts ex_post_forms)
  have run: "process ex_upload ex_post_no_audio ''adminAAAAA''
               = (Inr (), [GetStreamPublicID ''adminAAAAA'', ReadForm ''xyz''])"
    unfolding process_form[OF ex_post_facts(3) ne ex_upload_parts(7) rf] ex_boundary
    by (simp add: form_of_audio store_segment_def)
  have B: "ReadForm ''xyz'' \<in> set (snd (process ex_upload ex_post_no_audio ''adminAAAAA''))"
    by (simp add: run)
  from C4_resolve_before_form[THEN conjunct2, THEN mp, OF B]
  have C: "\<exists>t. snd (process ex_upload ex_post_no_audio ''adminAAAAA'')
          = GetStreamPublicID ''adminAAAAA'' # ReadForm ''xyz'' # t"
    by blast
  show ?thesis
    by (intro conjI ex_upload_parts(9) A B C)
qed









text \<open>
  C6, as amended. \<open>process\<close> fails with \<open>Missing content type header\<close>, before any other
  step, when the content-type header is absent or empty. A content type that is present is
  not examined further: when the admin identifier resolves, the form is read with the text
  after the first \<open>=\<close> as boundary, which for a content type without \<open>=\<close> is the whole
  content type, and \<open>process\<close> fails if the reader does and goes on with the form if it
  does not.
\<close>

theorem C6_content_type_check:
  "(Headers_get (req_headers req) ''content-type'' = None
      \<or> Headers_get (req_headers req) ''content-type'' = Some []
    \<longrightarrow> process u req a = (Inl (Error ''Missing content type header\<newline>''), []))
   \<and> (Headers_get (req_headers req) ''content-type'' = Some ct \<and> ct \<noteq> []
       \<and> getStreamPublicIDFromStreamAdminID (upload_data u) a = Inr p
    \<longrightarrow> take 2 (snd (process u req a))
          = [GetStreamPublicID a, ReadForm (substr ct (indexOf ct CHR ''='' + 1))]
        \<and> (CHR ''='' \<notin> set ct \<longrightarrow>
             (readForm (std u) req ct = Inl e \<longrightarrow>
                process u req a = (Inl e, [GetStreamPublicID a, ReadForm ct]))
           \<and> (readForm (std u) req ct = Inr form \<longrightarrow>
                process u req a =
                  (fst (store_segment u p (file_field form ''audio'')),
                   [GetStreamPublicID a, ReadForm ct]
                   @ snd (store_segment u p (file_field form ''audio''))))))"
proof -
  have missing: "Headers_get (req_headers req) ''content-type'' = None
      \<or> Headers_get (req_headers req) ''content-type'' = Some []
    \<longrightarrow> process u req a = (Inl (Error ''Missing content type header\<newline>''), [])"
    using process_no_content_type[of req u a] by blast
  have present: "Headers_get (req_headers req) ''content-type'' = Some ct \<and> ct \<noteq> []
       \<and> getStreamPublicIDFromStreamAdminID (upload_data u) a = Inr p
    \<longrightarrow> take 2 (snd (process u req a))
          = [GetStreamPublicID a, ReadForm (substr ct (indexOf ct CHR ''='' + 1))]
        \<and> (CHR ''='' \<notin> set ct \<longrightarrow>
             (readForm (std u) req ct = Inl e \<longrightarrow>
                process u req a = (Inl e, [GetStreamPublicID a, ReadForm ct]))
           \<and> (readForm (std u) req ct = Inr form \<longrightarrow>
                process u req a =
                  (fst (store_segment u p (file_field form ''audio'')),
                   [GetStreamPublicID a, ReadForm ct]
                   @ snd (store_segment u p (file_field form ''audio'')))))"
  proof (intro impI, elim conjE, intro conjI impI)
    assume h: "Headers_get (req_headers req) ''content-type'' = Some ct" "ct \<noteq> []"
      "getStreamPublicIDFromStreamAdminID (upload_data u) a = Inr p"
    show "take 2 (snd (process u req a))
          = [GetStreamPublicID a, ReadForm (substr ct (indexOf ct CHR ''='' + 1))]"
      using h by (simp add: process_def Let_def split: sum.splits)
    assume n: "CHR ''='' \<notin> set ct"
    have b: "substr ct (indexOf ct CHR ''='' + 1) = ct"
      by (simp add: indexOf_absent[OF n] substr_0)
    show "process u req a = (Inl e, [GetStreamPublicID a, ReadForm ct])"
      if "readForm (std u) req ct = Inl e"
      using process_form_error[OF h, of e] that by (simp add: b)
    show "process u req a =
            (fst (store_segment u p (file_field form ''audio'')),
             [GetStreamPublicID a, ReadForm ct]
             @ snd (store_segment u p (file_field form ''audio'')))"
      if "readForm (std u) req ct = Inr form"
      using process_form[OF h, of form] that by (simp add: b)
  qed
  show ?thesis
    by (intro conjI missing present)
qed

theorem C6_content_type_check_witness:
  "Headers_get (req_headers (ex_request ''POST'' ''/adminAAAAA'')) ''content-type'' = None
   \<and> process ex_upload (ex_request ''POST'' ''/adminAAAAA'') ''adminAAAAA''
       = (Inl (Error ''Missing content type header\<newline>''), [])
   \<and> Headers_get (req_headers ex_post_plain) ''content-type'' = Some ''text/plain''
   \<and> take 2 (snd (process ex_upload ex_post_plain ''adminAAAAA''))
       = [GetStreamPublicID ''adminAAAAA'', ReadForm ''text/plain'']"
proof -
  have A: "process ex_upload (ex_request ''POST'' ''/adminAAAAA'') ''adminAAAAA''
       = (Inl (Error ''Missing content type header\<newline>''), [])"
    by (rule C6_content_type_check[THEN conjunct1, THEN mp, OF disjI1[OF ex_content_type(3)]])
  have ne: "''text/plain'' \<noteq> []"
    by simp
  have B: "take 2 (snd (process ex_upload ex_post_plain ''adminAAAAA''))
       = [GetStreamPublicID ''adminAAAAA'', ReadForm ''text/plain'']"
    using C6_content_type_check[THEN conjunct2, THEN mp,
            OF conjI[OF ex_post_facts(6) conjI[OF ne ex_upload_parts(7)]], THEN conjunct1]
    unfolding ex_boundary .
  show ?thesis
    by (intro conjI ex_content_type(3) A ex_post_facts(6) B)
qed

text \<open>
  C6 as stated fails for a content type without boundary parameter: the upload with the
  content type \<open>text/plain\<close>, whose body uses \<open>text/plain\<close> as its boundary, is read with
  that boundary and stored as a segment, and \<open>process\<close> returns normally.
\<close>

theorem C6_no_boundary_counterexample:
  "Headers_get (req_headers ex_post_plain) ''content-type'' = Some ''text/plain''
   \<and> CHR ''='' \<notin> set ''text/plain''
   \<and> process ex_upload ex_post_plain ''adminAAAAA'' =
       (Inr (),
        [GetStreamPublicID ''adminAAAAA'', ReadForm ''text/plain'', RandomUUID,
         DenoOpen ''/srv/sludge/audio/publicPPPP/segment001.opus'',
         DenoWrite 3 (ex_encode ''OggS''), DenoClose 3,
         AddSegmentURL ''segment001'' ''publicPPPP''
           (URL ''https://files.example/audio/publicPPPP/segment001.opus'')])
   \<and> (\<forall>e. fst (process ex_upload ex_post_plain ''adminAAAAA'') \<noteq> Inl e)"
proof -
  let ?f = "\<lparr>filename = ''a.opus'', filetype = ''audio/ogg'', filesize = 4,
             content = Some (ex_encode ''OggS''), tempfile = None\<rparr>"
  have ne: "''text/plain'' \<noteq> []"
    by simp
  have n: "CHR ''='' \<notin> set ''text/plain''"
    by simp
  have r: "readForm (std ex_upload) ex_post_plain
              (substr ''text/plain'' (indexOf ''text/plain'' CHR ''='' + 1))
           = Inr (form_of [(''audio'', ?f)])"
    unfolding ex_boundary by (simp add: ex_upload_parts ex_deno_parts ex_post_forms)
  have c: "content ?f = Some (ex_encode ''OggS'')"
    by simp
  have o: "deno_open (std ex_upload)
              (join (std ex_upload)
                 [rootDir (core ex_upload), ''audio'',
                  join (std ex_upload) [''publicPPPP'', ''segment001'' @ ''.opus'']])
            = Inr 3"
    by (simp add: ex_upload_parts ex_deno_parts)
  have w: "deno_write (std ex_upload) 3 (ex_encode ''OggS'')
             = Inr (length (ex_encode ''OggS''))"
    by (simp add: ex_upload_parts ex_deno_parts)
  have reg: "register_segment ex_upload ''segment001'' ''publicPPPP''
               (join (std ex_upload) [''publicPPPP'', ''segment001'' @ ''.opus''])
             = [AddSegmentURL ''segment001'' ''publicPPPP''
                  (URL ''https://files.example/audio/publicPPPP/segment001.opus'')]"
    unfolding register_segment_def ex_upload_parts ex_deno_parts
    by (simp add: ex_deno_parts)
  have run: "process ex_upload ex_post_plain ''adminAAAAA'' =
       (Inr (),
        [GetStreamPublicID ''adminAAAAA'', ReadForm ''text/plain'', RandomUUID,
         DenoOpen ''/srv/sludge/audio/publicPPPP/segment001.opus'',
         DenoWrite 3 (ex_encode ''OggS''), DenoClose 3,
         AddSegmentURL ''segment001'' ''publicPPPP''
           (URL ''https://files.example/audio/publicPPPP/segment001.opus'')])"
    unfolding process_form[OF ex_post_facts(6) ne ex_upload_parts(7) r] form_of_audio
      store_segment_written[OF c ex_upload_parts(5) o w] reg ex_boundary
    unfolding ex_upload_parts ex_deno_parts
    by (simp add: ex_deno_parts)
  show ?thesis
    by (simp add: ex_post_facts(6) run)
qed


subsection \<open>The playlist cursor\<close>

lemma ex_segments_json:
  \<open>JSON_stringify (JArray (map Segment_json ex_segments)) =
     ''[{"segmentID":"segment001","streamPublicID":"publicPPPP","segmentURL":"https://files.example/audio/publicPPPP/segment001.opus"},{"segmentID":"segment002","streamPublicID":"publicPPPP","segmentURL":"https://files.example/audio/publicPPPP/segment002.opus"}]''\<close>
  by (simp add: ex_segments_def Segment_json_def JSON_quote_def JSON_escape_def)

lemma ex_segment2_json:
  \<open>JSON_stringify (JArray (map Segment_json
       [\<lparr>segmentID = ''segment002'', streamPublicID = ''publicPPPP'',
         segmentURL = ''https://files.example/audio/publicPPPP/segment002.opus''\<rparr>])) =
     ''[{"segmentID":"segment002","streamPublicID":"publicPPPP","segmentURL":"https://files.example/audio/publicPPPP/segment002.opus"}]''\<close>
  by (simp add: Segment_json_def JSON_quote_def JSON_escape_def)

text \<open>
  C7, as amended. For a GET whose first path segment \<open>p\<close> passes validation and whose
  second segment \<open>x\<close> is present: the keywords are matched first, so for \<open>x\<close> equal to
  \<open>hubs\<close> or \<open>admin\<close> the response is that of the hub list or of the stream record of
  \<open>p\<close>, whatever the validator says of \<open>x\<close>. For any other \<open>x\<close> the validator alone
  decides: if \<open>x\<close> passes validation, the response is the one for \<open>getSegmentList p x\<close>; if
  it fails validation, the response is the one for \<open>getSegmentList p\<close> without cursor, the
  same response as for a request without second segment. The response for a query that
  resolves is status 200 with the content type \<open>application/json\<close> and the encoded JSON
  array of the segments; for a query that rejects it is status 404 with the message.
\<close>

theorem C7_cursor_decided_by_validator:
  assumes "path_seg req 1 = Some p" and "validateUUID (uuid h) p"
    and "path_seg req 2 = Some x"
  shows "(x \<noteq> ''hubs'' \<and> x \<noteq> ''admin'' \<and> validateUUID (uuid h) x \<longrightarrow>
            get h req =
              (case getSegmentList (data h) p (Some x) of
                 Inl e \<Rightarrow>
                   \<lparr>status = 404, body = Some (encodeText (action h) (message e)),
                    headers = None\<rparr>
               | Inr segs \<Rightarrow>
                   \<lparr>status = 200,
                    body = Some (encodeText (action h)
                             (JSON_stringify (JArray (map Segment_json segs)))),
                    headers = Some [(''content-type'', ''application/json'')]\<rparr>))
       \<and> (x \<noteq> ''hubs'' \<and> x \<noteq> ''admin'' \<and> \<not> validateUUID (uuid h) x \<longrightarrow>
            get h req =
              (case getSegmentList (data h) p None of
                 Inl e \<Rightarrow>
                   \<lparr>status = 404, body = Some (encodeText (action h) (message e)),
                    headers = None\<rparr>
               | Inr segs \<Rightarrow>
                   \<lparr>status = 200,
                    body = Some (encodeText (action h)
                             (JSON_stringify (JArray (map Segment_json segs)))),
                    headers = Some [(''content-type'', ''application/json'')]\<rparr>)
            \<and> (path_seg req0 1 = Some p \<and> path_seg req0 2 = None \<longrightarrow>
                 get h req = get h req0))
       \<and> (x = ''hubs'' \<longrightarrow>
            get h req =
              (case connectedHubs (action h) p of
                 Inl e \<Rightarrow>
                   \<lparr>status = 404, body = Some (encodeText (action h) (message e)),
                    headers = None\<rparr>
               | Inr hs \<Rightarrow>
                   \<lparr>status = 200,
                    body = Some (encodeText (action h)
                             (JSON_stringify (JArray (map JString hs)))),
                    headers = Some [(''content-type'', ''application/json'')]\<rparr>))
       \<and> (x = ''admin'' \<longrightarrow>
            get h req =
              (case fetchStream (action h) p of
                 Inl e \<Rightarrow>
                   \<lparr>status = 404, body = Some (encodeText (action h) (message e)),
                    headers = None\<rparr>
               | Inr d \<Rightarrow>
                   \<lparr>status = 200,
                    body = Some (encodeText (action h)
                             (JSON_stringify (UserStreamData_json d))),
                    headers = Some [(''content-type'', ''application/json'')]\<rparr>))"
  using assms
  by (simp add: get_def get_try_eq valid_path_Some valid_path_None catch_404_def
      json_response_def json_headers_eq split: sum.splits)

theorem C7_cursor_decided_by_validator_witness:
  \<open>get ex_handler (ex_request ''GET'' ''/publicPPPP/segment001'') =
     \<lparr>status = 200,
      body = Some (ex_encode
        ''[{"segmentID":"segment002","streamPublicID":"publicPPPP","segmentURL":"https://files.example/audio/publicPPPP/segment002.opus"}]''),
      headers = Some [(''content-type'', ''application/json'')]\<rparr>
   \<and> get ex_handler (ex_request ''GET'' ''/publicPPPP/latest'') =
     \<lparr>status = 200,
      body = Some (ex_encode
        ''[{"segmentID":"segment001","streamPublicID":"publicPPPP","segmentURL":"https://files.example/audio/publicPPPP/segment001.opus"},{"segmentID":"segment002","streamPublicID":"publicPPPP","segmentURL":"https://files.example/audio/publicPPPP/segment002.opus"}]''),
      headers = Some [(''content-type'', ''application/json'')]\<rparr>
   \<and> get ex_handler (ex_request ''GET'' ''/publicPPPP/latest'') =
     get ex_handler (ex_request ''GET'' ''/publicPPPP'')\<close>
proof -
  have vp: "validateUUID (uuid ex_handler) ''publicPPPP''"
    by (simp add: ex_handler_parts ex_valid_ids)
  have vc: "''segment001'' \<noteq> ''hubs'' \<and> ''segment001'' \<noteq> ''admin''
            \<and> validateUUID (uuid ex_handler) ''segment001''"
    by (simp add: ex_handler_parts ex_valid_ids)
  have nv: "''latest'' \<noteq> ''hubs'' \<and> ''latest'' \<noteq> ''admin''
            \<and> \<not> validateUUID (uuid ex_handler) ''latest''"
    by (simp add: ex_handler_parts ex_valid_ids)
  have q1: "getSegmentList (data ex_handler) ''publicPPPP'' (Some ''segment001'')
              = Inr [\<lparr>segmentID = ''segment002'', streamPublicID = ''publicPPPP'',
                      segmentURL =
                        ''https://files.example/audio/publicPPPP/segment002.opus''\<rparr>]"
    by (simp add: ex_handler_parts ex_getSegmentList_def ex_segments_def)
  have q0: "getSegmentList (data ex_handler) ''publicPPPP'' None = Inr ex_segments"
    by (simp add: ex_handler_parts ex_getSegmentList_def)
  have enc: "encodeText (action ex_handler) = ex_encode"
    by (rule ex_handler_parts)
  note T1 = C7_cursor_decided_by_validator
              [of "ex_request ''GET'' ''/publicPPPP/segment001''" "''publicPPPP''" ex_handler
                  "''segment001''" "ex_request ''GET'' ''/publicPPPP''",
               OF ex_path_segs(8) vp ex_path_segs(9)]
  note T2 = C7_cursor_decided_by_validator
              [of "ex_request ''GET'' ''/publicPPPP/latest''" "''publicPPPP''" ex_handler
                  "''latest''" "ex_request ''GET'' ''/publicPPPP''",
               OF ex_path_segs(10) vp ex_path_segs(11)]
  note A0 = T1[THEN conjunct1, THEN mp, OF vc, unfolded q1 sum.case enc ex_segment2_json]
  note B0 = T2[THEN conjunct2, THEN conjunct1, THEN mp, OF nv, THEN conjunct1,
               unfolded q0 sum.case enc ex_segments_json]
  note C0 = T2[THEN conjunct2, THEN conjunct1, THEN mp, OF nv, THEN conjunct2, THEN mp,
               OF conjI[OF ex_path_segs(6) ex_path_segs(7)]]
  show ?thesis
    by (intro conjI A0 B0 C0)
qed

text \<open>
  C7 as stated fails where the validator accepts a keyword: with identifiers of five
  characters, \<open>admin\<close> passes validation, yet for GET \<open>/publc/admin\<close> it is not a cursor:
  the response is that of the stream record of \<open>publc\<close>, here a 404, and not the playlist
  that the segment query with the cursor \<open>admin\<close> gives.
\<close>

theorem C7_keyword_counterexample:
  "validateUUID (uuid ex_handler5) ''publc''
   \<and> validateUUID (uuid ex_handler5) ''admin''
   \<and> getSegmentList (data ex_handler5) ''publc'' (Some ''admin'') = Inr ex_segments
   \<and> get ex_handler5 (ex_request ''GET'' ''/publc/admin'') =
       \<lparr>status = 404, body = Some (ex_encode ''UnknownStream''), headers = None\<rparr>
   \<and> get ex_handler5 (ex_request ''GET'' ''/publc/admin'') \<noteq>
       \<lparr>status = 200,
        body = Some (ex_encode (JSON_stringify (JArray (map Segment_json ex_segments)))),
        headers = Some [(''content-type'', ''application/json'')]\<rparr>"
proof -
  have parts: "uuid ex_handler5 = \<lparr>validateUUID = ex_validateUUID5\<rparr>"
    "data ex_handler5 = \<lparr>getSegmentList =
        (\<lambda>p cursor. if p = ''publc'' then Inr ex_segments else Inl UnknownStream)\<rparr>"
    "encodeText (action ex_handler5) = ex_encode"
    "fetchStream (action ex_handler5) ''publc'' = Inl UnknownStream"
    by (simp_all add: ex_handler5_def ex_handler_parts ex_stream_def)
  have v: "ex_validateUUID5 ''publc''" "ex_validateUUID5 ''admin''"
    by (simp_all add: ex_validateUUID5_def ex_alphabet_def)
  have segs: "path_seg (ex_request ''GET'' ''/publc/admin'') 1 = Some ''publc''"
    "path_seg (ex_request ''GET'' ''/publc/admin'') 2 = Some ''admin''"
    by (simp_all add: path_seg_def path_at_def ex_request_def)
  have g: "get ex_handler5 (ex_request ''GET'' ''/publc/admin'') =
       \<lparr>status = 404, body = Some (ex_encode ''UnknownStream''), headers = None\<rparr>"
    unfolding get_def get_try_eq segs
    by (simp add: valid_path_Some parts v catch_404_def UnknownStream_def)
  show ?thesis
    by (simp add: parts v g)
qed


subsection \<open>CORS headers\<close>

text \<open>
  C8. Every response passes through \<open>setCORS\<close>, which appends three headers; two of them
  are CORS headers, \<open>access-control-allow-origin\<close> and \<open>access-control-allow-headers\<close>. The
  third is named \<open>access-control-allow-method\<close>, which is not the header of the allowed
  methods, \<open>access-control-allow-methods\<close>: the response carries no allowed-methods header.
  Here is the response to the preflight request \<open>OPTIONS /adminAAAAA/admin\<close>, and what
  \<open>get\<close> on its headers gives for the three CORS names.
\<close>

theorem C8_allowed_methods_header_missing:
  "handle ex_handler (ex_request ''OPTIONS'' ''/adminAAAAA/admin'') =
     \<lparr>status = 200, body = None,
      headers = Some [(''access-control-allow-origin'', ''*''),
                      (''access-control-allow-method'', ''GET''),
                      (''access-control-allow-headers'',
                       ''Origin, X-Requested-With, Content-Type, Accept, Range'')]\<rparr>
   \<and> (\<exists>hs. headers (handle ex_handler (ex_request ''OPTIONS'' ''/adminAAAAA/admin'')) = Some hs
        \<and> Headers_get hs ''access-control-allow-origin'' = Some ''*''
        \<and> Headers_get hs ''access-control-allow-headers''
            = Some ''Origin, X-Requested-With, Content-Type, Accept, Range''
        \<and> Headers_get hs ''access-control-allow-methods'' = None)"
proof -
  have m: "req_method (ex_request ''OPTIONS'' ''/adminAAAAA/admin'') = ''OPTIONS''"
    by (simp add: ex_request_def)
  have r: "handle ex_handler (ex_request ''OPTIONS'' ''/adminAAAAA/admin'') =
     \<lparr>status = 200, body = None,
      headers = Some [(''access-control-allow-origin'', ''*''),
                      (''access-control-allow-method'', ''GET''),
                      (''access-control-allow-headers'',
                       ''Origin, X-Requested-With, Content-Type, Accept, Range'')]\<rparr>"
    by (simp add: handle_def selectMethod_def m setCORS_def Headers_append_def Headers_new_def)
  have g: "\<exists>hs. headers (handle ex_handler (ex_request ''OPTIONS'' ''/adminAAAAA/admin''))
                 = Some hs
        \<and> Headers_get hs ''access-control-allow-origin'' = Some ''*''
        \<and> Headers_get hs ''access-control-allow-headers''
            = Some ''Origin, X-Requested-With, Content-Type, Accept, Range''
        \<and> Headers_get hs ''access-control-allow-methods'' = None"
    unfolding r by (simp add: Headers_get_def Headers_values_def)
  show ?thesis
    by (intro conjI r g)
qed


subsection \<open>The failure boundary\<close>

lemma catch_404_status:
  assumes "\<And>r. t = Inr r \<Longrightarrow> status r = 200"
  shows "status (catch_404 h t) = 200 \<or> status (catch_404 h t) = 404"
  using assms by (cases t) (simp_all add: catch_404_def)

lemma get_status: "status (get h req) = 200 \<or> status (get h req) = 404"
  unfolding get_def
  by (rule catch_404_status)
     (auto simp add: get_try_eq json_response_def split: if_splits sum.splits)

lemma post_status: "status (post h req) = 200 \<or> status (post h req) = 404"
  unfolding post_def
  by (rule catch_404_status)
     (auto simp add: post_try_eq json_response_def split: if_splits sum.splits)

lemma put_status: "status (put h req) = 200 \<or> status (put h req) = 404"
  unfolding put_def
  by (rule catch_404_status)
     (auto simp add: put_run_eq split: if_splits sum.splits)

lemma delete_status: "status (delete h req) = 200 \<or> status (delete h req) = 404"
  unfolding delete_def
  by (rule catch_404_status)
     (auto simp add: delete_try_eq split: if_splits sum.splits)

text \<open>
  C9, as amended. An error \<open>e\<close> raised by the path validation, by reading the body, by
  parsing the hub URL or by an awaited operation is answered with status 404, no headers and
  the encoded message of \<open>e\<close> as body: for GET (an invalid first segment gives
  \<open>Invalid path\<close>; \<open>connectedHubs\<close>, \<open>fetchStream\<close> and \<open>getSegmentList\<close>), for POST
  (\<open>createStream\<close>, an invalid first segment, \<open>processUploadFormData\<close>), for DELETE (an
  invalid path, no data, the body, \<open>disconnectStreamFromHub\<close>) and for PUT (an invalid path,
  no data, the body, the hub URL). The four handlers answer with status 200 or 404 and no
  other. PUT does not await \<open>connectStreamToHub\<close>: when that promise rejects, the response
  is the success response, status 200 without body.
\<close>

theorem C9_failure_boundary:
  "(\<not> valid_path h (path_seg req 1) \<longrightarrow>
      get h req =
        \<lparr>status = 404, body = Some (encodeText (action h) ''Invalid path''), headers = None\<rparr>)
   \<and> (path_seg req 1 = Some p \<and> validateUUID (uuid h) p
       \<and> (path_seg req 2 = Some ''hubs'' \<and> connectedHubs (action h) p = Inl e
          \<or> path_seg req 2 = Some ''admin'' \<and> fetchStream (action h) p = Inl e
          \<or> path_seg req 2 \<noteq> Some ''hubs'' \<and> path_seg req 2 \<noteq> Some ''admin''
             \<and> getSegmentList (data h) p
                  (if valid_path h (path_seg req 2) then path_seg req 2 else None) = Inl e)
       \<longrightarrow> get h req =
             \<lparr>status = 404, body = Some (encodeText (action h) (message e)), headers = None\<rparr>)
   \<and> (path_seg req 1 = Some ''stream'' \<and> createStream (action h) = Inl e
       \<or> path_seg req 1 \<noteq> Some ''stream'' \<and> \<not> valid_path h (path_seg req 1)
          \<and> e = Error ''Invalid path''
       \<or> path_seg req 1 \<noteq> Some ''stream'' \<and> path_seg req 1 = Some p
          \<and> validateUUID (uuid h) p \<and> processUploadFormData (action h) req p = Inl e
       \<longrightarrow> post h req =
             \<lparr>status = 404, body = Some (encodeText (action h) (message e)), headers = None\<rparr>)
   \<and> ((\<not> valid_path h (path_seg req 1) \<or> path_seg req 2 \<noteq> Some ''admin'')
          \<and> e = Error ''Invalid path''
       \<or> path_seg req 1 = Some p \<and> validateUUID (uuid h) p \<and> path_seg req 2 = Some ''admin''
          \<and> (no_data req \<and> e = Error ''No data''
             \<or> \<not> no_data req \<and> req_body req = Inl e
             \<or> \<not> no_data req \<and> req_body req = Inr bs
                \<and> disconnectStreamFromHub (action h) (decodeText (action h) bs) p = Inl e)
       \<longrightarrow> delete h req =
             \<lparr>status = 404, body = Some (encodeText (action h) (message e)), headers = None\<rparr>)
   \<and> ((\<not> valid_path h (path_seg req 1) \<or> path_seg req 2 \<noteq> Some ''admin'')
          \<and> e = Error ''Invalid path''
       \<or> path_seg req 1 = Some p \<and> validateUUID (uuid h) p \<and> path_seg req 2 = Some ''admin''
          \<and> (no_data req \<and> e = Error ''No data''
             \<or> \<not> no_data req \<and> req_body req = Inl e
             \<or> \<not> no_data req \<and> req_body req = Inr bs
                \<and> new_URL (deno h) (decodeText (action h) bs) = Inl e)
       \<longrightarrow> put h req =
             \<lparr>status = 404, body = Some (encodeText (action h) (message e)), headers = None\<rparr>)
   \<and> (status (get h req) = 200 \<or> status (get h req) = 404)
   \<and> (status (post h req) = 200 \<or> status (post h req) = 404)
   \<and> (status (put h req) = 200 \<or> status (put h req) = 404)
   \<and> (status (delete h req) = 200 \<or> status (delete h req) = 404)
   \<and> (snd (put_run h req) = Some (Inl e) \<longrightarrow>
        put h req = \<lparr>status = 200, body = None, headers = None\<rparr>)"
proof -
  have g0: "\<not> valid_path h (path_seg req 1) \<longrightarrow>
      get h req =
        \<lparr>status = 404, body = Some (encodeText (action h) ''Invalid path''), headers = None\<rparr>"
    by (simp add: get_def get_try_eq catch_404_def)
  have g1: "path_seg req 1 = Some p \<and> validateUUID (uuid h) p
       \<and> (path_seg req 2 = Some ''hubs'' \<and> connectedHubs (action h) p = Inl e
          \<or> path_seg req 2 = Some ''admin'' \<and> fetchStream (action h) p = Inl e
          \<or> path_seg req 2 \<noteq> Some ''hubs'' \<and> path_seg req 2 \<noteq> Some ''admin''
             \<and> getSegmentList (data h) p
                  (if valid_path h (path_seg req 2) then path_seg req 2 else None) = Inl e)
       \<longrightarrow> get h req =
             \<lparr>status = 404, body = Some (encodeText (action h) (message e)), headers = None\<rparr>"
    by (auto simp add: get_def get_try_eq catch_404_def valid_path_Some)
  have po: "path_seg req 1 = Some ''stream'' \<and> createStream (action h) = Inl e
       \<or> path_seg req 1 \<noteq> Some ''stream'' \<and> \<not> valid_path h (path_seg req 1)
          \<and> e = Error ''Invalid path''
       \<or> path_seg req 1 \<noteq> Some ''stream'' \<and> path_seg req 1 = Some p
          \<and> validateUUID (uuid h) p \<and> processUploadFormData (action h) req p = Inl e
       \<longrightarrow> post h req =
             \<lparr>status = 404, body = Some (encodeText (action h) (message e)), headers = None\<rparr>"
    by (auto simp add: post_def post_try_eq catch_404_def valid_path_Some)
  have de: "(\<not> valid_path h (path_seg req 1) \<or> path_seg req 2 \<noteq> Some ''admin'')
          \<and> e = Error ''Invalid path''
       \<or> path_seg req 1 = Some p \<and> validateUUID (uuid h) p \<and> path_seg req 2 = Some ''admin''
          \<and> (no_data req \<and> e = Error ''No data''
             \<or> \<not> no_data req \<and> req_body req = Inl e
             \<or> \<not> no_data req \<and> req_body req = Inr bs
                \<and> disconnectStreamFromHub (action h) (decodeText (action h) bs) p = Inl e)
       \<longrightarrow> delete h req =
             \<lparr>status = 404, body = Some (encodeText (action h) (message e)), headers = None\<rparr>"
    by (auto simp add: delete_def delete_try_eq catch_404_def valid_path_Some)
  have pu: "(\<not> valid_path h (path_seg req 1) \<or> path_seg req 2 \<noteq> Some ''admin'')
          \<and> e = Error ''Invalid path''
       \<or> path_seg req 1 = Some p \<and> validateUUID (uuid h) p \<and> path_seg req 2 = Some ''admin''
          \<and> (no_data req \<and> e = Error ''No data''
             \<or> \<not> no_data req \<and> req_body req = Inl e
             \<or> \<not> no_data req \<and> req_body req = Inr bs
                \<and> new_URL (deno h) (decodeText (action h) bs) = Inl e)
       \<longrightarrow> put h req =
             \<lparr>status = 404, body = Some (encodeText (action h) (message e)), headers = None\<rparr>"
    by (auto simp add: put_def put_run_eq catch_404_def valid_path_Some)
  have detached: "snd (put_run h req) = Some (Inl e) \<longrightarrow>
        put h req = \<lparr>status = 200, body = None, headers = None\<rparr>"
    by (auto simp add: put_def put_run_eq catch_404_def split: if_splits sum.splits)
  show ?thesis
    by (intro conjI g0 g1 po de pu get_status post_status put_status delete_status detached)
qed


theorem C9_failure_boundary_witness:
  "get ex_handler (ex_request ''GET'' ''/not-a-valid-id'') =
     \<lparr>status = 404, body = Some (ex_encode ''Invalid path''), headers = None\<rparr>
   \<and> get ex_handler (ex_request ''GET'' ''/adminBBBBB/hubs'') =
     \<lparr>status = 404, body = Some (ex_encode ''UnknownStream''), headers = None\<rparr>
   \<and> post ex_handler (ex_request ''POST'' ''/not-a-valid-id'') =
     \<lparr>status = 404, body = Some (ex_encode ''Invalid path''), headers = None\<rparr>
   \<and> delete ex_handler (ex_request_body ''DELETE'' ''/adminBBBBB/admin'' ''hub1'') =
     \<lparr>status = 404, body = Some (ex_encode ''UnknownStream''), headers = None\<rparr>
   \<and> put ex_handler (ex_request_body ''PUT'' ''/adminAAAAA/admin'' ''not a url'') =
     \<lparr>status = 404, body = Some (ex_encode ''Invalid URL''), headers = None\<rparr>
   \<and> put ex_handler
       (ex_request_body ''PUT'' ''/adminBBBBB/admin'' ''https://hub.example/callback'') =
     \<lparr>status = 200, body = None, headers = None\<rparr>"
proof -
  let ?E = "\<lambda>m. \<lparr>status = 404, body = Some (encodeText (action ex_handler) m),
                  headers = None\<rparr>"
  have vA: "validateUUID (uuid ex_handler) ''adminAAAAA''"
    and vB: "validateUUID (uuid ex_handler) ''adminBBBBB''"
    by (simp_all add: ex_handler_parts ex_valid_ids)
  have nv: "\<not> valid_path ex_handler (path_seg (ex_request m ''/not-a-valid-id'') 1)" for m
    unfolding ex_path_segs by (simp add: valid_path_Some ex_handler_parts ex_valid_ids)
  have ns: "path_seg (ex_request ''POST'' ''/not-a-valid-id'') 1 \<noteq> Some ''stream''"
    unfolding ex_path_segs by simp
  \<comment> \<open>GET with an invalid first segment\<close>
  have W1: "get ex_handler (ex_request ''GET'' ''/not-a-valid-id'') = ?E ''Invalid path''"
    by (rule C9_failure_boundary[THEN conjunct1, THEN mp, OF nv])
  \<comment> \<open>GET of the hubs of an unknown stream\<close>
  have hubs: "connectedHubs (action ex_handler) ''adminBBBBB'' = Inl UnknownStream"
    by (simp add: ex_handler_parts hub_list_def ex_store_facts)
  have W2: "get ex_handler (ex_request ''GET'' ''/adminBBBBB/hubs'') = ?E (message UnknownStream)"
    by (rule C9_failure_boundary[THEN conjunct2, THEN conjunct1, THEN mp,
          OF conjI[OF ex_path_segs(4) conjI[OF vB disjI1[OF conjI[OF ex_path_segs(5) hubs]]]]])
  \<comment> \<open>POST with an invalid first segment\<close>
  have W3: "post ex_handler (ex_request ''POST'' ''/not-a-valid-id'')
              = ?E (message (Error ''Invalid path''))"
    by (rule C9_failure_boundary[THEN conjunct2, THEN conjunct2, THEN conjunct1, THEN mp,
          OF disjI2[OF disjI1[OF conjI[OF ns conjI[OF nv refl]]]]])
  \<comment> \<open>DELETE on an unknown stream\<close>
  have dis: "disconnectStreamFromHub (action ex_handler)
               (decodeText (action ex_handler) (ex_encode ''hub1'')) ''adminBBBBB''
             = Inl UnknownStream"
    by (simp add: ex_handler_parts hub_disconnect_def ex_store_facts)
  have W4: "delete ex_handler (ex_request_body ''DELETE'' ''/adminBBBBB/admin'' ''hub1'')
              = ?E (message UnknownStream)"
    by (rule C9_failure_boundary[THEN conjunct2, THEN conjunct2, THEN conjunct2,
          THEN conjunct1, THEN mp,
          OF disjI2[OF conjI[OF ex_path_segs(13) conjI[OF vB conjI[OF ex_path_segs(14)
               disjI2[OF disjI2[OF conjI[OF ex_request_body_facts(1)
                 conjI[OF ex_request_body_facts(2) dis]]]]]]]]])
  \<comment> \<open>PUT with a body that is no URL\<close>
  have bad: "new_URL (deno ex_handler)
               (decodeText (action ex_handler) (ex_encode ''not a url''))
             = Inl (Error ''Invalid URL'')"
    by (simp add: ex_handler_parts ex_decode_encode ex_new_URL)
  have W5: "put ex_handler (ex_request_body ''PUT'' ''/adminAAAAA/admin'' ''not a url'')
              = ?E (message (Error ''Invalid URL''))"
    by (rule C9_failure_boundary[THEN conjunct2, THEN conjunct2, THEN conjunct2,
          THEN conjunct2, THEN conjunct1, THEN mp,
          OF disjI2[OF conjI[OF ex_path_segs(15) conjI[OF vA conjI[OF ex_path_segs(16)
               disjI2[OF disjI2[OF conjI[OF ex_request_body_facts(1)
                 conjI[OF ex_request_body_facts(2) bad]]]]]]]]])
  \<comment> \<open>PUT whose connect rejects\<close>
  have run: "snd (put_run ex_handler
               (ex_request_body ''PUT'' ''/adminBBBBB/admin'' ''https://hub.example/callback''))
             = Some (Inl UnknownStream)"
    unfolding put_run_eq ex_path_segs
    by (simp add: valid_path_Some ex_valid_ids ex_request_body_facts ex_handler_parts
        ex_decode_encode ex_new_URL hub_connect_def ex_store_facts)
  have W6: "put ex_handler
       (ex_request_body ''PUT'' ''/adminBBBBB/admin'' ''https://hub.example/callback'') =
     \<lparr>status = 200, body = None, headers = None\<rparr>"
    by (rule C9_failure_boundary[THEN conjunct2, THEN conjunct2, THEN conjunct2,
          THEN conjunct2, THEN conjunct2, THEN conjunct2, THEN conjunct2, THEN conjunct2,
          THEN conjunct2, THEN mp, OF run])
  show ?thesis
    using W1 W2 W3 W4 W5 W6
    by (simp only: ex_handler_parts UnknownStream_def js_error.sel simp_thms)
qed

text \<open>
  C9 as stated fails for PUT: with a hub store out of reach, \<open>connectStreamToHub\<close> rejects
  for the known stream \<open>adminAAAAA\<close>, and the response has status 200, not 404.
\<close>

theorem C9_put_counterexample:
  "snd (put_run ex_handler_offline
          (ex_request_body ''PUT'' ''/adminAAAAA/admin'' ''https://hub.example/callback''))
     = Some (Inl (Error ''hub store offline''))
   \<and> put ex_handler_offline
        (ex_request_body ''PUT'' ''/adminAAAAA/admin'' ''https://hub.example/callback'')
     = \<lparr>status = 200, body = None, headers = None\<rparr>
   \<and> status (put ex_handler_offline
        (ex_request_body ''PUT'' ''/adminAAAAA/admin'' ''https://hub.example/callback''))
     \<noteq> 404"
proof -
  have parts: "uuid ex_handler_offline = \<lparr>validateUUID = ex_validateUUID\<rparr>"
    "deno ex_handler_offline = ex_deno"
    "decodeText (action ex_handler_offline) = ex_decode"
    "connectStreamToHub (action ex_handler_offline)
       = (\<lambda>u a. Inl (Error ''hub store offline''))"
    by (simp_all add: ex_handler_offline_def ex_handler_parts)
  have run: "put_run ex_handler_offline
          (ex_request_body ''PUT'' ''/adminAAAAA/admin'' ''https://hub.example/callback'')
     = (Inr \<lparr>status = 200, body = None, headers = None\<rparr>,
        Some (Inl (Error ''hub store offline'')))"
    unfolding put_run_eq ex_path_segs
    by (simp add: valid_path_Some parts ex_valid_ids ex_request_body_facts ex_decode_encode
        ex_new_URL)
  show ?thesis
    by (simp add: put_def run catch_404_def)
qed


text \<open>
  C10. \<open>setCORS\<close> appends one header named \<open>access-control-allow-method\<close> (singular) with
  the value \<open>GET\<close>. In the response \<open>handle\<close> sends, for every handler and every request
  (so for every request method), that name has the single value \<open>GET\<close>, and there is
  no header named \<open>access-control-allow-methods\<close>.
\<close>

theorem C10_allow_method_is_GET_only:
  "(\<exists>hs. headers (setCORS res) = Some hs
      \<and> Headers_values hs ''access-control-allow-method''
          = Headers_values (case headers res of None \<Rightarrow> [] | Some hs0 \<Rightarrow> hs0)
              ''access-control-allow-method'' @ [''GET''])
   \<and> (\<exists>hs. headers (handle h req) = Some hs
      \<and> Headers_values hs ''access-control-allow-method'' = [''GET'']
      \<and> Headers_get hs ''access-control-allow-method'' = Some ''GET''
      \<and> Headers_values hs ''access-control-allow-methods'' = []
      \<and> Headers_get hs ''access-control-allow-methods'' = None)"
proof -
  have a: "\<exists>hs. headers (setCORS res) = Some hs
      \<and> Headers_values hs ''access-control-allow-method''
          = Headers_values (case headers res of None \<Rightarrow> [] | Some hs0 \<Rightarrow> hs0)
              ''access-control-allow-method'' @ [''GET'']"
    by (simp add: setCORS_headers Headers_values_def)
  have b: "\<exists>hs. headers (handle h req) = Some hs
      \<and> Headers_values hs ''access-control-allow-method'' = [''GET'']
      \<and> Headers_get hs ''access-control-allow-method'' = Some ''GET''
      \<and> Headers_values hs ''access-control-allow-methods'' = []
      \<and> Headers_get hs ''access-control-allow-methods'' = None"
    using handle_headers[of h req]
    by (auto simp add: Headers_get_def Headers_values_def)
  show ?thesis
    by (intro conjI a b)
qed


end
